theory Spec2Isabelle
  imports Complex_Main
begin

section \<open>Data model\<close>

text \<open>
  The controllers of the delivery-tracking subsystem work on four MongoDB collections:
  staff, clients, staff sessions and daily deliveries. A collection is a list of
  documents in natural order; a stored \<open>ObjectId\<close> is the text that \<open>toString\<close> prints
  for it (24 hexadecimal digits in lower case), while a request carries an id as any
  string; a
  \<open>Date\<close> is its number of milliseconds since the epoch, and a JavaScript number is a
  real number (exact arithmetic, no rounding). A field of the request that is missing
  is the empty string: both are falsy in the checks of the handlers. The records hold
  the fields that the handlers read and write; the bookkeeping fields of Mongoose
  (\<open>__v\<close>, \<open>createdAt\<close>, \<open>updatedAt\<close>) are left out. A write succeeds unless the unique
  index refuses it: faults of the storage, and with them a \<open>Promise.all\<close> of two saves
  of which one fails, are outside the model.
\<close>

type_synonym oid = string
type_synonym timestamp = int

text \<open>
  The responses of a handler that are not a success: the HTTP status with its message
  (400, 404 and 500).
\<close>

datatype error = BadRequest string | NotFound string | ServerError string

record historyEntry =
  h_date :: timestamp
  h_status :: string
  h_quantity :: real
  h_reason :: "string option"

text \<open>
  Modelled from the spec: the Client model (\<open>models/Client\<close>) is not among the sources.
  The record holds the fields that the staff controller reads and writes: \<open>_id\<close>,
  \<open>timeShift\<close>, \<open>quantity\<close>, \<open>pricePerLitre\<close>, \<open>deliveryStatus\<close>, \<open>deliveryNotes\<close>,
  \<open>deliveryHistory\<close> and the back-reference \<open>assignedStaff\<close>.
\<close>

record client =
  c_id :: oid
  timeShift :: string
  c_quantity :: real
  pricePerLitre :: real
  c_deliveryStatus :: string
  deliveryNotes :: "string option"
  deliveryHistory :: "historyEntry list"
  assignedStaff :: "oid option"

text \<open>
  Modelled from the spec: the Staff model (\<open>models/Staff\<close>) is not among the sources.
  The record holds \<open>_id\<close> and the array \<open>assignedClients\<close>, the two fields the
  assignment and delivery handlers use.
\<close>

record staff =
  s_id :: oid
  assignedClients :: "oid list"

text \<open>
  Modelled from the spec: the StaffSession model (\<open>models/StaffSession\<close>) is not among
  the sources. A session has the three fields \<open>selectShift\<close> writes; \<open>staffId\<close> is the
  reference to the staff member, an \<open>ObjectId\<close>.
\<close>

record staffSession =
  ss_staffId :: oid
  ss_date :: timestamp
  ss_shift :: string

text \<open>
  The DailyDelivery schema (\<open>IDailyDelivery\<close>); its field \<open>notes\<close> is \<open>d_notes\<close> here.
\<close>

record dailyDelivery =
  clientId :: oid
  staffId :: oid
  date :: timestamp
  shift :: string
  deliveryStatus :: string
  quantity :: real
  price :: real
  d_notes :: "string option"

record db =
  staffs :: "staff list"
  clients :: "client list"
  staffSessions :: "staffSession list"
  dailyDeliveries :: "dailyDelivery list"

text \<open>
  What a handler reads from outside the database: \<open>mongoose.Types.ObjectId.isValid\<close>;
  the cast of Mongoose from a request string that is valid to the \<open>ObjectId\<close> it denotes
  (\<open>toObjectId\<close>, giving the text of that id: for 24 hexadecimal digits in either case,
  the same digits in lower case), which \<open>findById\<close>, the filters of queries and the
  writes of id fields all apply;
  and the settings \<open>getSetting("shifts")\<close> and \<open>getSetting("deliveryStatuses")\<close> of the
  Settings model, which is not among the sources (\<open>None\<close> stands for a setting that is
  not an array: calling \<open>includes\<close> or \<open>find\<close> on it throws, and the handler answers 500).
\<close>

record env =
  isValid :: "string \<Rightarrow> bool"
  toObjectId :: "string \<Rightarrow> oid"
  shifts :: "string list option"
  deliveryStatuses :: "string list option"

subsection \<open>Documents by id\<close>

text \<open>
  \<open>Model.findById\<close> returns the first document with the id, here already cast from the
  request string by the handler; \<open>doc.save()\<close> of a loaded
  document is an \<open>updateOne\<close> on its \<open>_id\<close>: the first document with that id is replaced.
\<close>

fun updateOne :: "('a \<Rightarrow> bool) \<Rightarrow> ('a \<Rightarrow> 'a) \<Rightarrow> 'a list \<Rightarrow> 'a list" where
  "updateOne p f [] = []"
| "updateOne p f (x # xs) = (if p x then f x # xs else x # updateOne p f xs)"

definition findStaffById :: "db \<Rightarrow> oid \<Rightarrow> staff option" where
  "findStaffById st i = find (\<lambda>s. s_id s = i) (staffs st)"

definition findClientById :: "db \<Rightarrow> oid \<Rightarrow> client option" where
  "findClientById st i = find (\<lambda>c. c_id c = i) (clients st)"

definition saveStaff :: "staff \<Rightarrow> db \<Rightarrow> db" where
  "saveStaff s st = st\<lparr>staffs := updateOne (\<lambda>x. s_id x = s_id s) (\<lambda>_. s) (staffs st)\<rparr>"

definition saveClient :: "client \<Rightarrow> db \<Rightarrow> db" where
  "saveClient c st = st\<lparr>clients := updateOne (\<lambda>x. c_id x = c_id c) (\<lambda>_. c) (clients st)\<rparr>"

section \<open>Assignment ledger\<close>

text \<open>
  \<open>assignClient\<close>: both ids must be well formed, the staff member and the client must
  exist, the client must not be in the staff member's array and must have no
  \<open>assignedStaff\<close>. Then the id is pushed onto the array, the back-reference is set and
  both documents are saved. The handler answers with the staff document. The two
  lookups and the two writes go through the cast; the test of membership,
  \<open>staff.assignedClients.some((id) => id.toString() === clientId)\<close>, compares the stored
  texts with the string of the request as it came.
\<close>

definition assignClient :: "env \<Rightarrow> db \<Rightarrow> string \<Rightarrow> string \<Rightarrow> error + (db \<times> staff)" where
  "assignClient e st sid cid =
    (if \<not> isValid e sid \<or> \<not> isValid e cid then Inl (BadRequest ''Invalid ID format'')
     else case findStaffById st (toObjectId e sid) of
       None \<Rightarrow> Inl (NotFound ''Staff member not found'')
     | Some s \<Rightarrow>
       (case findClientById st (toObjectId e cid) of
          None \<Rightarrow> Inl (NotFound ''Client not found'')
        | Some c \<Rightarrow>
          if cid \<in> set (assignedClients s)
          then Inl (BadRequest ''Client already assigned to this staff member'')
          else if assignedStaff c \<noteq> None
          then Inl (BadRequest
            ''Client is already assigned to another staff member. Please unassign first.'')
          else
            let s' = s\<lparr>assignedClients := assignedClients s @ [toObjectId e cid]\<rparr>;
                c' = c\<lparr>assignedStaff := Some (toObjectId e sid)\<rparr>
            in Inr (saveClient c' (saveStaff s' st), s')))"

text \<open>
  \<open>removeAssignment\<close>: the same checks of ids and existence; the client must be in the
  staff member's array. Then every occurrence of the id is filtered out of the array
  and the back-reference is cleared. The lookups go through the cast; the test of
  membership and the filter, \<open>id.toString() !== clientId\<close>, compare the stored texts with
  the string of the request as it came.
\<close>

definition removeAssignment ::
  "env \<Rightarrow> db \<Rightarrow> string \<Rightarrow> string \<Rightarrow> error + (db \<times> staff)" where
  "removeAssignment e st sid cid =
    (if \<not> isValid e sid \<or> \<not> isValid e cid then Inl (BadRequest ''Invalid ID format'')
     else case findStaffById st (toObjectId e sid) of
       None \<Rightarrow> Inl (NotFound ''Staff member not found'')
     | Some s \<Rightarrow>
       (case findClientById st (toObjectId e cid) of
          None \<Rightarrow> Inl (NotFound ''Client not found'')
        | Some c \<Rightarrow>
          if cid \<notin> set (assignedClients s)
          then Inl (BadRequest ''This client is not assigned to this staff member'')
          else
            let s' = s\<lparr>assignedClients := filter (\<lambda>i. i \<noteq> cid) (assignedClients s)\<rparr>;
                c' = c\<lparr>assignedStaff := None\<rparr>
            in Inr (saveClient c' (saveStaff s' st), s')))"

text \<open>
  \<open>updateAssignedClients\<close>: the staff member's array is replaced by the ids of the
  clients found by \<open>Client.find({_id: {$in: staff.assignedClients}})\<close> whose \<open>timeShift\<close>
  is the given shift; only the staff document is saved. The handler answers with the
  number of ids kept.
\<close>

definition updateAssignedClients ::
  "env \<Rightarrow> db \<Rightarrow> string \<Rightarrow> string \<Rightarrow> error + (db \<times> nat)" where
  "updateAssignedClients e st sid sh =
    (if \<not> isValid e sid then Inl (BadRequest ''Invalid staff ID format'')
     else if sh = [] \<or> sh \<notin> set [''AM'', ''PM'']
     then Inl (BadRequest ''Valid shift (AM or PM) is required'')
     else case findStaffById st (toObjectId e sid) of
       None \<Rightarrow> Inl (NotFound ''Staff member not found'')
     | Some s \<Rightarrow>
       let allAssignedClients = filter (\<lambda>c. c_id c \<in> set (assignedClients s)) (clients st);
           filteredClientIds = map c_id (filter (\<lambda>c. timeShift c = sh) allAssignedClients);
           s' = s\<lparr>assignedClients := filteredClientIds\<rparr>
       in Inr (saveStaff s' st, length filteredClientIds))"

text \<open>
  The ledger's invariant as the specification words it: a client of the database has
  a back-reference exactly when the array of some staff member holds its id.
\<close>

definition consistent :: "db \<Rightarrow> bool" where
  "consistent st =
    list_all (\<lambda>c. (assignedStaff c \<noteq> None) =
                   list_ex (\<lambda>s. c_id c \<in> set (assignedClients s)) (staffs st))
      (clients st)"

section \<open>Shift session tracker\<close>

text \<open>\<open>Array.prototype.join\<close>, for the message of a refused shift.\<close>

fun joinWith :: "string \<Rightarrow> string list \<Rightarrow> string" where
  "joinWith sep [] = []"
| "joinWith sep [x] = x"
| "joinWith sep (x # y # ys) = x @ sep @ joinWith sep (y # ys)"

text \<open>
  \<open>StaffSession.findOneAndUpdate({staffId, date: today}, {staffId, shift, date: today},
  {upsert: true, new: true})\<close>: the first session of the staff member with exactly that
  date gets the three fields, and a new session is inserted when there is none. The
  session written is returned.
\<close>

definition upsertSession :: "oid \<Rightarrow> timestamp \<Rightarrow> string \<Rightarrow> staffSession list \<Rightarrow> staffSession list" where
  "upsertSession sid today sh ss =
    (if list_ex (\<lambda>x. ss_staffId x = sid \<and> ss_date x = today) ss
     then updateOne (\<lambda>x. ss_staffId x = sid \<and> ss_date x = today)
            (\<lambda>x. x\<lparr>ss_staffId := sid, ss_shift := sh, ss_date := today\<rparr>) ss
     else ss @ [\<lparr>ss_staffId = sid, ss_date = today, ss_shift = sh\<rparr>])"

text \<open>
  \<open>selectShift\<close>; \<open>today\<close> is the handler's \<open>new Date()\<close> after \<open>setHours(0, 0, 0, 0)\<close>.
\<close>

definition selectShift ::
  "env \<Rightarrow> timestamp \<Rightarrow> db \<Rightarrow> string \<Rightarrow> string \<Rightarrow> error + (db \<times> staffSession)" where
  "selectShift e today st sid sh =
    (if \<not> isValid e sid then Inl (BadRequest ''Invalid staff ID format'')
     else case shifts e of
       None \<Rightarrow> Inl (ServerError ''Error selecting shift'')
     | Some validShifts \<Rightarrow>
       if sh = [] \<or> sh \<notin> set validShifts
       then Inl (BadRequest (''Valid shift ('' @ joinWith '' or '' validShifts @ '') is required''))
       else (case findStaffById st (toObjectId e sid) of
          None \<Rightarrow> Inl (NotFound ''Staff member not found'')
        | Some s \<Rightarrow>
          Inr (st\<lparr>staffSessions :=
                   upsertSession (toObjectId e sid) today sh (staffSessions st)\<rparr>,
               \<lparr>ss_staffId = toObjectId e sid, ss_date = today, ss_shift = sh\<rparr>)))"

text \<open>The sessions of one (staff, day) key.\<close>

definition sessionsOf :: "oid \<Rightarrow> timestamp \<Rightarrow> db \<Rightarrow> staffSession list" where
  "sessionsOf sid day st =
    filter (\<lambda>x. ss_staffId x = sid \<and> ss_date x = day) (staffSessions st)"

section \<open>Delivery recorder\<close>

text \<open>
  The unique compound index \<open>{clientId: 1, date: 1, shift: 1}\<close> of the schema: a write
  that would leave a second document with the key of the document written is refused
  (MongoDB's duplicate key error).
\<close>

definition indexKey :: "dailyDelivery \<Rightarrow> oid \<times> timestamp \<times> string" where
  "indexKey d = (clientId d, date d, shift d)"

definition duplicateKey :: "dailyDelivery \<Rightarrow> dailyDelivery list \<Rightarrow> bool" where
  "duplicateKey d ds = list_ex (\<lambda>x. indexKey x = indexKey d) ds"

definition uniqueKeys :: "db \<Rightarrow> bool" where
  "uniqueKeys st = distinct (map indexKey (dailyDeliveries st))"

text \<open>The records of one (client, day, shift) key.\<close>

definition recordsOf :: "oid \<Rightarrow> timestamp \<Rightarrow> string \<Rightarrow> db \<Rightarrow> dailyDelivery list" where
  "recordsOf cid day sh st =
    filter (\<lambda>d. indexKey d = (cid, day, sh)) (dailyDeliveries st)"

text \<open>
  \<open>DailyDelivery.findOneAndUpdate(filter, {$set: ...}, {upsert: true, new: true,
  setDefaultsOnInsert: true})\<close>: the first document that matches the filter is updated in
  place; when none matches, the document \<open>ins\<close> (the filter's equalities, the \<open>$set\<close>
  fields and the schema's defaults) is inserted. \<open>None\<close> is the duplicate key error; else
  the collection and the document written are returned.
\<close>

definition findOneAndUpdate ::
  "(dailyDelivery \<Rightarrow> bool) \<Rightarrow> (dailyDelivery \<Rightarrow> dailyDelivery) \<Rightarrow> dailyDelivery \<Rightarrow>
   dailyDelivery list \<Rightarrow> (dailyDelivery list \<times> dailyDelivery) option" where
  "findOneAndUpdate q upd ins ds =
    (case dropWhile (\<lambda>d. \<not> q d) ds of
       [] \<Rightarrow> if duplicateKey ins ds then None else Some (ds @ [ins], ins)
     | d # rest \<Rightarrow>
       let pre = takeWhile (\<lambda>d. \<not> q d) ds; d' = upd d
       in if duplicateKey d' (pre @ rest) then None else Some (pre @ d' # rest, d'))"

text \<open>
  The filter of both recording handlers: the client, the staff member, and a date in
  \<open>[today, today + 24 * 60 * 60 * 1000)\<close>. The shift is not part of it.
\<close>

definition sameClientStaffDay :: "oid \<Rightarrow> oid \<Rightarrow> timestamp \<Rightarrow> dailyDelivery \<Rightarrow> bool" where
  "sameClientStaffDay cid sid today d =
    (clientId d = cid \<and> staffId d = sid \<and>
     today \<le> date d \<and> date d < today + 24 * 60 * 60 * 1000)"

text \<open>
  \<open>deliveryStatuses.find((s) => s === name) || name\<close>.
\<close>

definition statusSetting :: "string list \<Rightarrow> string \<Rightarrow> string" where
  "statusSetting statuses name =
    (case find (\<lambda>s. s = name) statuses of Some s \<Rightarrow> s | None \<Rightarrow> name)"

text \<open>
  \<open>markClientDailyDelivered\<close>; \<open>today\<close> is the handler's \<open>new Date()\<close> after
  \<open>setHours(0, 0, 0, 0)\<close>. The handler answers with the delivery record written.
\<close>

definition markClientDailyDelivered ::
  "env \<Rightarrow> timestamp \<Rightarrow> db \<Rightarrow> string \<Rightarrow> string \<Rightarrow> string \<Rightarrow>
   error + (db \<times> dailyDelivery)" where
  "markClientDailyDelivered e today st sid cid sh =
    (if sh = [] then Inl (BadRequest ''Shift is required'')
     else if \<not> isValid e sid \<or> \<not> isValid e cid then Inl (BadRequest ''Invalid ID format'')
     else case findStaffById st (toObjectId e sid) of
       None \<Rightarrow> Inl (NotFound ''Staff member not found'')
     | Some s \<Rightarrow>
       (case findClientById st (toObjectId e cid) of
          None \<Rightarrow> Inl (NotFound ''Client not found'')
        | Some c \<Rightarrow>
          if c_id c \<notin> set (assignedClients s)
          then Inl (BadRequest ''This client is not assigned to this staff member'')
          else (case deliveryStatuses e of
             None \<Rightarrow> Inl (ServerError ''Error updating delivery status'')
           | Some statuses \<Rightarrow>
             let deliveredStatus = statusSetting statuses ''Delivered'' in
             (case findOneAndUpdate
                     (sameClientStaffDay (toObjectId e cid) (toObjectId e sid) today)
                     (\<lambda>d. d\<lparr>clientId := toObjectId e cid, staffId := toObjectId e sid,
                             date := today, shift := sh,
                             deliveryStatus := ''Delivered'', quantity := c_quantity c,
                             price := c_quantity c * pricePerLitre c\<rparr>)
                     \<lparr>clientId = toObjectId e cid, staffId = toObjectId e sid,
                      date = today, shift = sh,
                      deliveryStatus = ''Delivered'', quantity = c_quantity c,
                      price = c_quantity c * pricePerLitre c, d_notes = None\<rparr>
                     (dailyDeliveries st) of
                None \<Rightarrow> Inl (ServerError ''Error updating delivery status'')
              | Some (ds', dailyDelivery) \<Rightarrow>
                let c' = c\<lparr>c_deliveryStatus := deliveredStatus,
                           deliveryHistory := deliveryHistory c @
                             [\<lparr>h_date = today, h_status = deliveredStatus,
                               h_quantity = c_quantity c, h_reason = None\<rparr>]\<rparr>
                in Inr (saveClient c' (st\<lparr>dailyDeliveries := ds'\<rparr>), dailyDelivery)))))"

text \<open>
  \<open>markClientDailyUndelivered\<close>: the shift and the reason are required before anything
  else is looked at.
\<close>

definition markClientDailyUndelivered ::
  "env \<Rightarrow> timestamp \<Rightarrow> db \<Rightarrow> string \<Rightarrow> string \<Rightarrow> string \<Rightarrow> string \<Rightarrow>
   error + (db \<times> dailyDelivery)" where
  "markClientDailyUndelivered e today st sid cid sh reason =
    (if sh = [] then Inl (BadRequest ''Shift is required'')
     else if reason = [] then Inl (BadRequest ''Reason is required for non-delivery'')
     else if \<not> isValid e sid \<or> \<not> isValid e cid then Inl (BadRequest ''Invalid ID format'')
     else case findStaffById st (toObjectId e sid) of
       None \<Rightarrow> Inl (NotFound ''Staff member not found'')
     | Some s \<Rightarrow>
       (case findClientById st (toObjectId e cid) of
          None \<Rightarrow> Inl (NotFound ''Client not found'')
        | Some c \<Rightarrow>
          if c_id c \<notin> set (assignedClients s)
          then Inl (BadRequest ''This client is not assigned to this staff member'')
          else (case deliveryStatuses e of
             None \<Rightarrow> Inl (ServerError ''Error updating delivery status'')
           | Some statuses \<Rightarrow>
             let notDeliveredStatus = statusSetting statuses ''Not Delivered'' in
             (case findOneAndUpdate
                     (sameClientStaffDay (toObjectId e cid) (toObjectId e sid) today)
                     (\<lambda>d. d\<lparr>clientId := toObjectId e cid, staffId := toObjectId e sid,
                             date := today, shift := sh,
                             deliveryStatus := ''Not Delivered'', quantity := 0, price := 0,
                             d_notes := Some reason\<rparr>)
                     \<lparr>clientId = toObjectId e cid, staffId = toObjectId e sid,
                      date = today, shift = sh,
                      deliveryStatus = ''Not Delivered'', quantity = 0, price = 0,
                      d_notes = Some reason\<rparr>
                     (dailyDeliveries st) of
                None \<Rightarrow> Inl (ServerError ''Error updating delivery status'')
              | Some (ds', dailyDelivery) \<Rightarrow>
                let c' = c\<lparr>c_deliveryStatus := notDeliveredStatus,
                           deliveryNotes := Some reason,
                           deliveryHistory := deliveryHistory c @
                             [\<lparr>h_date = today, h_status = notDeliveredStatus,
                               h_quantity = 0, h_reason = Some reason\<rparr>]\<rparr>
                in Inr (saveClient c' (st\<lparr>dailyDeliveries := ds'\<rparr>), dailyDelivery)))))"

text \<open>
  The same \<open>markClientDailyDelivered\<close> request sent \<open>n\<close> times in a row on one day; the
  first failure ends the run.
\<close>

fun repeatDelivered ::
  "nat \<Rightarrow> env \<Rightarrow> timestamp \<Rightarrow> db \<Rightarrow> string \<Rightarrow> string \<Rightarrow> string \<Rightarrow> error + db" where
  "repeatDelivered 0 e today st sid cid sh = Inr st"
| "repeatDelivered (Suc n) e today st sid cid sh =
    (case markClientDailyDelivered e today st sid cid sh of
       Inl err \<Rightarrow> Inl err
     | Inr (st', r) \<Rightarrow> repeatDelivered n e today st' sid cid sh)"

section \<open>Aggregation engine\<close>

text \<open>The \<open>$match\<close> on \<open>date: {$gte: start, $lte: end}\<close>.\<close>

definition inRange :: "timestamp \<Rightarrow> timestamp \<Rightarrow> dailyDelivery \<Rightarrow> bool" where
  "inRange start end d = (start \<le> date d \<and> date d \<le> end)"

text \<open>
  JavaScript's \<open>/\<close> on two counts and \<open>* 100\<close> on its result: a division by zero is
  \<open>NaN\<close> or \<open>Infinity\<close>, not an exception.
\<close>

datatype number = Num real | NaN | PosInfinity

definition js_divide :: "nat \<Rightarrow> nat \<Rightarrow> number" where
  "js_divide a b =
    (if b = 0 then (if a = 0 then NaN else PosInfinity) else Num (real a / real b))"

fun times100 :: "number \<Rightarrow> number" where
  "times100 (Num x) = Num (x * 100)"
| "times100 NaN = NaN"
| "times100 PosInfinity = PosInfinity"

record successRateResult =
  sr_total :: nat
  sr_delivered :: nat
  successRate :: number

text \<open>
  \<open>getDeliverySuccessRate(startDate, endDate)\<close>: two \<open>countDocuments\<close> and the rate. The
  fields \<open>total\<close> and \<open>delivered\<close> of the result are \<open>sr_total\<close> and \<open>sr_delivered\<close>.
\<close>

definition getDeliverySuccessRate :: "timestamp \<Rightarrow> timestamp \<Rightarrow> db \<Rightarrow> successRateResult" where
  "getDeliverySuccessRate startDate endDate st =
    (let totalDeliveries = length (filter (inRange startDate endDate) (dailyDeliveries st));
         deliveredCount = length (filter (\<lambda>d. inRange startDate endDate d \<and>
                                              deliveryStatus d = ''Delivered'')
                                    (dailyDeliveries st))
     in \<lparr>sr_total = totalDeliveries, sr_delivered = deliveredCount,
         successRate = (if totalDeliveries > 0
                        then times100 (js_divide deliveredCount totalDeliveries)
                        else Num 0)\<rparr>)"

record 'k trend =
  period :: 'k
  totalDeliveries :: nat
  successfulDeliveries :: nat
  trendSuccessRate :: real
  totalQuantity :: real
  totalRevenue :: real

text \<open>
  One \<open>$group\<close> of \<open>getDeliveryTrends\<close> with its \<open>$project\<close>: the accumulators over the
  records of the bucket, and the rate with its guard against an empty bucket.
\<close>

definition trendBucket :: "'k \<Rightarrow> dailyDelivery list \<Rightarrow> 'k trend" where
  "trendBucket k ds =
    (let n = length ds;
         succ = length (filter (\<lambda>d. deliveryStatus d = ''delivered'') ds)
     in \<lparr>period = k, totalDeliveries = n, successfulDeliveries = succ,
         trendSuccessRate = (if n = 0 then 0 else real succ / real n) * 100,
         totalQuantity = sum_list (map quantity ds),
         totalRevenue = sum_list (map price ds)\<rparr>)"

text \<open>
  \<open>getDeliveryTrends\<close>. \<open>start\<close> and \<open>end\<close> are the bounds after the defaults and
  \<open>setHours\<close>; \<open>groupBy\<close> is the MongoDB date expression that the \<open>switch\<close> on \<open>period\<close>
  picks (\<open>$week\<close>, year and month, or \<open>$dateToString\<close>), as a function from the date to
  an ordered key. The buckets are the distinct keys; \<open>$sort: {period: 1}\<close> puts them in
  ascending order.
\<close>

definition getDeliveryTrends ::
  "(timestamp \<Rightarrow> 'k::linorder) \<Rightarrow> timestamp \<Rightarrow> timestamp \<Rightarrow> db \<Rightarrow> 'k trend list" where
  "getDeliveryTrends groupBy start end st =
    (let matched = filter (inRange start end) (dailyDeliveries st);
         keys = sort (remdups (map (\<lambda>d. groupBy (date d)) matched))
     in map (\<lambda>k. trendBucket k (filter (\<lambda>d. groupBy (date d) = k) matched)) keys)"

record reasonCount =
  reason :: string
  count :: nat

text \<open>
  \<open>getNonDeliveryReasons\<close>: the \<open>$match\<close> on the range, on the status and on a note
  that exists and is not empty; one group per note with its count; \<open>$sort: {count: -1}\<close>.
  Groups of equal count are kept in the order of their first record.
\<close>

definition getNonDeliveryReasons :: "timestamp \<Rightarrow> timestamp \<Rightarrow> db \<Rightarrow> reasonCount list" where
  "getNonDeliveryReasons start end st =
    (let matched = filter (\<lambda>d. inRange start end d \<and> deliveryStatus d = ''not_delivered'' \<and>
                             (case d_notes d of None \<Rightarrow> False | Some n \<Rightarrow> n \<noteq> []))
                     (dailyDeliveries st);
         reasons = remdups (List.map_filter d_notes matched);
         groups = map (\<lambda>r. \<lparr>reason = r,
                             count = length (filter (\<lambda>d. d_notes d = Some r) matched)\<rparr>) reasons
     in sort_key (\<lambda>g. - int (count g)) groups)"

section \<open>A concrete farm\<close>

text \<open>
  Two staff members and one client with daily quantity 5 at 10 per litre on the PM
  shift, on the day that starts at 1700006400000 (midnight of 15 November 2023, UTC).
\<close>

text \<open>
  On strings of 24 hexadecimal digits: \<open>isValid\<close> accepts them in either case, and the
  cast gives the digits in lower case.
\<close>

definition objectIdText :: "string \<Rightarrow> bool" where
  "objectIdText i =
    (length i = 24 \<and> list_all (\<lambda>c. c \<in> set ''0123456789abcdefABCDEF'') i)"

definition lowerHex :: "char \<Rightarrow> char" where
  "lowerHex c =
    (if c = CHR ''A'' then CHR ''a'' else if c = CHR ''B'' then CHR ''b''
     else if c = CHR ''C'' then CHR ''c'' else if c = CHR ''D'' then CHR ''d''
     else if c = CHR ''E'' then CHR ''e'' else if c = CHR ''F'' then CHR ''f'' else c)"

definition env0 :: env where
  "env0 = \<lparr>isValid = objectIdText, toObjectId = map lowerHex,
           shifts = Some [''AM'', ''PM''],
           deliveryStatuses = Some [''Delivered'', ''Not Delivered'']\<rparr>"

definition staffA :: oid where "staffA = ''64b0000000000000000000a1''"
definition staffB :: oid where "staffB = ''64b0000000000000000000b2''"
definition clientX :: oid where "clientX = ''64b0000000000000000000c3''"

text \<open>The id of client X as a request may spell it, in upper case.\<close>

definition clientXupper :: string where "clientXupper = ''64B0000000000000000000C3''"
definition day0 :: timestamp where "day0 = 1700006400000"

definition clientX0 :: client where
  "clientX0 = \<lparr>c_id = clientX, timeShift = ''PM'', c_quantity = 5, pricePerLitre = 10,
               c_deliveryStatus = ''Pending'', deliveryNotes = None, deliveryHistory = [],
               assignedStaff = None\<rparr>"

definition farm0 :: db where
  "farm0 = \<lparr>staffs = [\<lparr>s_id = staffA, assignedClients = []\<rparr>,
                      \<lparr>s_id = staffB, assignedClients = []\<rparr>],
            clients = [clientX0], staffSessions = [], dailyDeliveries = []\<rparr>"

text \<open>The farm after \<open>clientX\<close> has been assigned to \<open>staffA\<close>.\<close>

definition farm1 :: db where
  "farm1 = \<lparr>staffs = [\<lparr>s_id = staffA, assignedClients = [clientX]\<rparr>,
                      \<lparr>s_id = staffB, assignedClients = []\<rparr>],
            clients = [clientX0\<lparr>assignedStaff := Some staffA\<rparr>],
            staffSessions = [], dailyDeliveries = []\<rparr>"

text \<open>
  The delivery record and the farm after staff member A has recorded client X as
  delivered on the PM shift of that day, and after A has recorded X as not delivered
  with the reason "gate locked" instead.
\<close>

definition deliveredX :: dailyDelivery where
  "deliveredX = \<lparr>clientId = clientX, staffId = staffA, date = day0, shift = ''PM'',
                 deliveryStatus = ''Delivered'', quantity = 5, price = 50, d_notes = None\<rparr>"

definition notDeliveredX :: dailyDelivery where
  "notDeliveredX = \<lparr>clientId = clientX, staffId = staffA, date = day0, shift = ''PM'',
                    deliveryStatus = ''Not Delivered'', quantity = 0, price = 0,
                    d_notes = Some ''gate locked''\<rparr>"

definition farm2 :: db where
  "farm2 = farm1\<lparr>clients := [clientX0\<lparr>assignedStaff := Some staffA,
                      c_deliveryStatus := ''Delivered'',
                      deliveryHistory := [\<lparr>h_date = day0, h_status = ''Delivered'',
                                            h_quantity = 5, h_reason = None\<rparr>]\<rparr>],
                  dailyDeliveries := [deliveredX]\<rparr>"

definition farm3 :: db where
  "farm3 = farm1\<lparr>clients := [clientX0\<lparr>assignedStaff := Some staffA,
                      c_deliveryStatus := ''Not Delivered'',
                      deliveryNotes := Some ''gate locked'',
                      deliveryHistory := [\<lparr>h_date = day0, h_status = ''Not Delivered'',
                                            h_quantity = 0, h_reason = Some ''gate locked''\<rparr>]\<rparr>],
                  dailyDeliveries := [notDeliveredX]\<rparr>"

text \<open>
  Every stored record has one of the two statuses of the schema's enumeration, the
  only ones the recording handlers write.
\<close>

definition enumStatuses :: "db \<Rightarrow> bool" where
  "enumStatuses st =
    list_all (\<lambda>d. deliveryStatus d = ''Delivered'' \<or> deliveryStatus d = ''Not Delivered'')
      (dailyDeliveries st)"

text \<open>
  The farm after client X, delivered by staff member A, has been unassigned from A and
  assigned to staff member B.
\<close>

definition farm4 :: db where
  "farm4 = farm2\<lparr>staffs := [\<lparr>s_id = staffA, assignedClients = []\<rparr>,
                             \<lparr>s_id = staffB, assignedClients = [clientX]\<rparr>],
                  clients := map (\<lambda>c. c\<lparr>assignedStaff := Some staffB\<rparr>) (clients farm2)\<rparr>"

text \<open>
  The ledger's invariant in the form that assigning and unassigning maintain: ids are
  unique in both collections, a staff member's array holds a client's id exactly when
  the client's back-reference names that staff member, and every back-reference names
  a staff member of the database.
\<close>

definition ledgerInv :: "db \<Rightarrow> bool" where
  "ledgerInv st =
    (distinct (map s_id (staffs st)) \<and> distinct (map c_id (clients st)) \<and>
     list_all (\<lambda>c. list_all (\<lambda>s. (c_id c \<in> set (assignedClients s)) =
                                  (assignedStaff c = Some (s_id s))) (staffs st)) (clients st) \<and>
     list_all (\<lambda>c. case assignedStaff c of
                      None \<Rightarrow> True
                    | Some i \<Rightarrow> list_ex (\<lambda>s. s_id s = i) (staffs st)) (clients st))"


section \<open>Documents by id: facts\<close>

lemma find_updateOne_const:
  "p y \<Longrightarrow> find p (updateOne p (\<lambda>_. y) xs) = (case find p xs of None \<Rightarrow> None | Some _ \<Rightarrow> Some y)"
  by (induction xs) auto

lemma updateOne_twice:
  "p y \<Longrightarrow> updateOne p (\<lambda>_. z) (updateOne p (\<lambda>_. y) xs) = updateOne p (\<lambda>_. z) xs"
  by (induction xs) auto

lemma updateOne_found:
  "find p xs = Some x \<Longrightarrow> updateOne p (\<lambda>_. x) xs = xs"
  by (induction xs) (auto split: if_splits)

lemma find_Some_pred: "find p xs = Some x \<Longrightarrow> p x"
  by (induction xs) (auto split: if_splits)

lemma findStaffById_id: "findStaffById st i = Some s \<Longrightarrow> s_id s = i"
  unfolding findStaffById_def by (drule find_Some_pred) simp

lemma findClientById_id: "findClientById st i = Some c \<Longrightarrow> c_id c = i"
  unfolding findClientById_def by (drule find_Some_pred) simp

lemma findStaffById_saveStaff:
  "findStaffById st i = Some s \<Longrightarrow> s_id s' = i \<Longrightarrow> findStaffById (saveStaff s' st) i = Some s'"
  by (simp add: findStaffById_def saveStaff_def find_updateOne_const)

lemma findClientById_saveClient:
  "findClientById st i = Some c \<Longrightarrow> c_id c' = i \<Longrightarrow> findClientById (saveClient c' st) i = Some c'"
  by (simp add: findClientById_def saveClient_def find_updateOne_const)

lemma findStaffById_saveClient [simp]: "findStaffById (saveClient c st) i = findStaffById st i"
  by (simp add: findStaffById_def saveClient_def)

lemma findClientById_saveStaff [simp]: "findClientById (saveStaff s st) i = findClientById st i"
  by (simp add: findClientById_def saveStaff_def)

lemma saveStaff_twice:
  "s_id s2 = s_id s1 \<Longrightarrow> saveStaff s2 (saveStaff s1 st) = saveStaff s2 st"
  by (simp add: saveStaff_def updateOne_twice)

lemma saveClient_twice:
  "c_id c2 = c_id c1 \<Longrightarrow> saveClient c2 (saveClient c1 st) = saveClient c2 st"
  by (simp add: saveClient_def updateOne_twice)

lemma saveStaff_found: "findStaffById st i = Some s \<Longrightarrow> saveStaff s st = st"
proof -
  assume a: "findStaffById st i = Some s"
  then have "s_id s = i" by (rule findStaffById_id)
  with a have "find (\<lambda>x. s_id x = s_id s) (staffs st) = Some s" by (simp add: findStaffById_def)
  then show ?thesis by (simp add: saveStaff_def updateOne_found)
qed

lemma saveClient_found: "findClientById st i = Some c \<Longrightarrow> saveClient c st = st"
proof -
  assume a: "findClientById st i = Some c"
  then have "c_id c = i" by (rule findClientById_id)
  with a have "find (\<lambda>x. c_id x = c_id c) (clients st) = Some c" by (simp add: findClientById_def)
  then show ?thesis by (simp add: saveClient_def updateOne_found)
qed

lemma saveStaff_saveClient_commute: "saveStaff s (saveClient c st) = saveClient c (saveStaff s st)"
  by (simp add: saveStaff_def saveClient_def)

lemma filter_neq_absent: "x \<notin> set xs \<Longrightarrow> filter (\<lambda>i. i \<noteq> x) xs = xs"
  by (induction xs) auto

section \<open>Assignment ledger: assign, then unassign\<close>

text \<open>
  The round trip when the request spells the client's id as it is stored. Let the ids
  be well formed, let the cast leave the client's id as it is, let staff member S and
  client C exist, and let C be assigned to nobody: C has no back-reference and is not
  in the array of S. Then \<open>assignClient\<close> succeeds, after it S holds C's id at the end of
  its array and C refers back to S, and \<open>removeAssignment\<close> on the result succeeds and
  gives back the database as it was before the assignment, staff array and
  back-reference included.
\<close>

theorem assign_then_unassign_restores:
  assumes "isValid e sid" and "isValid e cid" and "toObjectId e cid = cid"
    and "findStaffById st (toObjectId e sid) = Some s" and "findClientById st cid = Some c"
    and "assignedStaff c = None" and "cid \<notin> set (assignedClients s)"
  shows "case assignClient e st sid cid of
           Inl err \<Rightarrow> False
         | Inr (st', s') \<Rightarrow>
             findStaffById st' (toObjectId e sid) =
               Some (s\<lparr>assignedClients := assignedClients s @ [cid]\<rparr>) \<and>
             findClientById st' cid = Some (c\<lparr>assignedStaff := Some (toObjectId e sid)\<rparr>) \<and>
             removeAssignment e st' sid cid = Inr (st, s)"
proof -
  let ?s' = "s\<lparr>assignedClients := assignedClients s @ [cid]\<rparr>"
  let ?c' = "c\<lparr>assignedStaff := Some (toObjectId e sid)\<rparr>"
  let ?st' = "saveClient ?c' (saveStaff ?s' st)"
  have sid_s: "s_id s = toObjectId e sid" using assms(4) by (rule findStaffById_id)
  have cid_c: "c_id c = cid" using assms(5) by (rule findClientById_id)
  have a: "assignClient e st sid cid = Inr (?st', ?s')"
    using assms by (simp add: assignClient_def Let_def)
  have fs: "findStaffById ?st' (toObjectId e sid) = Some ?s'"
    using assms(4) sid_s by (simp add: findStaffById_saveStaff)
  have fc: "findClientById ?st' cid = Some ?c'"
    using assms(5) cid_c by (simp add: findClientById_saveClient)
  have s_back: "?s'\<lparr>assignedClients := filter (\<lambda>i. i \<noteq> cid) (assignedClients ?s')\<rparr> = s"
    using assms(7) by (simp add: filter_neq_absent)
  have c_back: "?c'\<lparr>assignedStaff := None\<rparr> = c"
    using assms(6) by simp
  have "saveClient c (saveStaff s ?st') = st"
    using assms(4,5) sid_s cid_c
    by (simp add: saveStaff_saveClient_commute saveClient_twice saveStaff_twice
        saveStaff_found saveClient_found)
  then have r: "removeAssignment e ?st' sid cid = Inr (st, s)"
    using assms(1,2,3) fs fc s_back c_back by (simp add: removeAssignment_def Let_def)
  show ?thesis using a fs fc r by simp
qed

lemmas farm_defs = env0_def farm0_def farm1_def clientX0_def staffA_def staffB_def clientX_def
  clientXupper_def day0_def objectIdText_def lowerHex_def

lemma env0_casts:
  "toObjectId env0 staffA = staffA" "toObjectId env0 staffB = staffB"
  "toObjectId env0 clientX = clientX" "toObjectId env0 clientXupper = clientX"
  by (simp_all add: farm_defs)

theorem assign_then_unassign_restores_witness:
  "isValid env0 staffA \<and> isValid env0 clientX \<and> toObjectId env0 clientX = clientX \<and>
   findStaffById farm0 (toObjectId env0 staffA) =
     Some \<lparr>s_id = staffA, assignedClients = []\<rparr> \<and>
   findClientById farm0 clientX = Some clientX0 \<and>
   assignedStaff clientX0 = None \<and>
   clientX \<notin> set (assignedClients \<lparr>s_id = staffA, assignedClients = []\<rparr>) \<and>
   (case assignClient env0 farm0 staffA clientX of
      Inl err \<Rightarrow> False
    | Inr (st', s') \<Rightarrow>
        st' = farm1 \<and>
        removeAssignment env0 st' staffA clientX =
          Inr (farm0, \<lparr>s_id = staffA, assignedClients = []\<rparr>))"
proof -
  have h1: "isValid env0 staffA" by (simp add: farm_defs)
  have h2: "isValid env0 clientX" by (simp add: farm_defs)
  have h3: "toObjectId env0 clientX = clientX" by (simp add: farm_defs)
  have h4: "findStaffById farm0 (toObjectId env0 staffA) =
      Some \<lparr>s_id = staffA, assignedClients = []\<rparr>"
    by (simp add: findStaffById_def farm_defs)
  have h5: "findClientById farm0 clientX = Some clientX0"
    by (simp add: findClientById_def farm_defs)
  have h6: "assignedStaff clientX0 = None" by (simp add: farm_defs)
  have h7: "clientX \<notin> set (assignedClients \<lparr>s_id = staffA, assignedClients = []\<rparr>)" by simp
  have a: "assignClient env0 farm0 staffA clientX =
      Inr (farm1, \<lparr>s_id = staffA, assignedClients = [clientX]\<rparr>)"
    by (simp add: assignClient_def findStaffById_def findClientById_def saveStaff_def
        saveClient_def Let_def farm_defs)
  show ?thesis
    using h1 h2 h3 h4 h5 h6 h7 a assign_then_unassign_restores [OF h1 h2 h3 h4 h5 h6 h7]
    by simp
qed

text \<open>
  Claim C8. The claim is that assigning client C to staff member S and unassigning it
  at once restores the state before the assignment. Both handlers find the client
  through the cast of the id in the request, which takes hexadecimal digits in either
  case, and test the membership in the array of S by comparing the stored texts with
  the string of the request. For the id of client X in upper case, which \<open>isValid\<close>
  accepts and the cast turns into the id of X: \<open>assignClient\<close> finds X, who is assigned to
  nobody, and assigns it to staff member A; \<open>removeAssignment\<close> with the same two ids
  finds A and X, does not find the request's string in the array of A and answers 400:
  X stays assigned to A. The handler that records a delivery compares the stored id
  of the client it found, and serves the same request.
\<close>

theorem upper_case_id_stays_assigned:
  "isValid env0 staffA \<and> isValid env0 clientXupper \<and>
   findStaffById farm0 (toObjectId env0 staffA) =
     Some \<lparr>s_id = staffA, assignedClients = []\<rparr> \<and>
   findClientById farm0 (toObjectId env0 clientXupper) = Some clientX0 \<and>
   assignedStaff clientX0 = None \<and>
   assignClient env0 farm0 staffA clientXupper =
     Inr (farm1, \<lparr>s_id = staffA, assignedClients = [clientX]\<rparr>) \<and>
   removeAssignment env0 farm1 staffA clientXupper =
     Inl (BadRequest ''This client is not assigned to this staff member'') \<and>
   farm1 \<noteq> farm0 \<and>
   markClientDailyDelivered env0 day0 farm1 staffA clientXupper ''PM'' =
     Inr (farm2, deliveredX)"
  by (simp add: assignClient_def removeAssignment_def markClientDailyDelivered_def
      findStaffById_def findClientById_def saveStaff_def saveClient_def
      findOneAndUpdate_def duplicateKey_def statusSetting_def Let_def
      farm2_def deliveredX_def farm_defs)

theorem upper_case_id_stays_assigned_witness:
  "\<exists>st'. assignClient env0 farm0 staffA clientXupper =
           Inr (st', \<lparr>s_id = staffA, assignedClients = [clientX]\<rparr>) \<and>
         removeAssignment env0 st' staffA clientXupper =
           Inl (BadRequest ''This client is not assigned to this staff member'')"
  using upper_case_id_stays_assigned by blast

section \<open>Assignment ledger: the invariant and the reconciliation by shift\<close>

text \<open>
  Claim C1. The claim is that assign, unassign and the reconciliation by shift all keep
  the invariant "a client has a back-reference exactly when some staff member's array
  holds its id". The reconciliation does not: \<open>updateAssignedClients\<close> saves the staff
  document only. In the farm where client X (PM shift) is assigned to staff member A,
  a consistent state that \<open>assignClient\<close> produces, reconciling A for the AM shift
  answers with 0 clients, empties A's array and leaves X's back-reference to A in place:
  afterwards X has a back-reference and no staff member's array holds X.
\<close>

theorem reconcile_breaks_consistency:
  "consistent farm1 \<and>
   (case updateAssignedClients env0 farm1 staffA ''AM'' of
      Inl err \<Rightarrow> False
    | Inr (st', n) \<Rightarrow>
        n = 0 \<and>
        findStaffById st' staffA = Some \<lparr>s_id = staffA, assignedClients = []\<rparr> \<and>
        findStaffById st' staffB = Some \<lparr>s_id = staffB, assignedClients = []\<rparr> \<and>
        map assignedStaff (clients st') = [Some staffA] \<and>
        \<not> consistent st')"
  by (simp add: consistent_def updateAssignedClients_def findStaffById_def saveStaff_def farm_defs)

theorem reconcile_breaks_consistency_witness:
  "\<exists>st' n. updateAssignedClients env0 farm1 staffA ''AM'' = Inr (st', n) \<and>
     consistent farm1 \<and> \<not> consistent st'"
  using reconcile_breaks_consistency by (auto split: sum.splits)

section \<open>The concrete farm: recording a delivery\<close>

lemmas farm_defs2 = farm_defs farm2_def farm3_def deliveredX_def notDeliveredX_def

lemma delivered_farm1:
  "markClientDailyDelivered env0 day0 farm1 staffA clientX ''PM'' = Inr (farm2, deliveredX)"
  by (simp add: markClientDailyDelivered_def findStaffById_def findClientById_def
      findOneAndUpdate_def duplicateKey_def statusSetting_def saveClient_def Let_def farm_defs2)

lemma undelivered_farm1:
  "markClientDailyUndelivered env0 day0 farm1 staffA clientX ''PM'' ''gate locked'' =
     Inr (farm3, notDeliveredX)"
  by (simp add: markClientDailyUndelivered_def findStaffById_def findClientById_def
      findOneAndUpdate_def duplicateKey_def statusSetting_def saveClient_def Let_def farm_defs2)

section \<open>Aggregation engine: the success rate\<close>

text \<open>
  Claim C5. For every database and date range, \<open>getDeliverySuccessRate\<close> reports as
  total the number of records in the range and as delivered the number of those with
  status Delivered; when the total is positive the rate is the number
  delivered / total * 100, and when the total is 0 the rate is the number 0: the guard
  keeps the division 0 / 0, which is \<open>NaN\<close> in JavaScript, from being evaluated.
\<close>

theorem successRate_zero_guard:
  "sr_total (getDeliverySuccessRate startDate endDate st) =
     length (filter (inRange startDate endDate) (dailyDeliveries st)) \<and>
   sr_delivered (getDeliverySuccessRate startDate endDate st) =
     length (filter (\<lambda>d. deliveryStatus d = ''Delivered'')
       (filter (inRange startDate endDate) (dailyDeliveries st))) \<and>
   (0 < sr_total (getDeliverySuccessRate startDate endDate st) \<longrightarrow>
      successRate (getDeliverySuccessRate startDate endDate st) =
        Num (real (sr_delivered (getDeliverySuccessRate startDate endDate st)) /
             real (sr_total (getDeliverySuccessRate startDate endDate st)) * 100)) \<and>
   (sr_total (getDeliverySuccessRate startDate endDate st) = 0 \<longrightarrow>
      successRate (getDeliverySuccessRate startDate endDate st) = Num 0)"
  by (simp add: getDeliverySuccessRate_def Let_def js_divide_def conj_commute)

theorem successRate_zero_guard_witness:
  "sr_total (getDeliverySuccessRate day0 (day0 + 86399999) farm1) = 0 \<and>
   successRate (getDeliverySuccessRate day0 (day0 + 86399999) farm1) = Num 0 \<and>
   sr_total (getDeliverySuccessRate day0 (day0 + 86399999) farm2) = 1 \<and>
   sr_delivered (getDeliverySuccessRate day0 (day0 + 86399999) farm2) = 1 \<and>
   successRate (getDeliverySuccessRate day0 (day0 + 86399999) farm2) = Num 100"
  using successRate_zero_guard [of day0 "day0 + 86399999" farm1]
    successRate_zero_guard [of day0 "day0 + 86399999" farm2]
  by (simp add: inRange_def farm_defs2)

section \<open>Aggregation engine: trend buckets\<close>

lemma list_all_filter: "list_all P xs \<Longrightarrow> list_all P (filter q xs)"
  by (induction xs) auto

lemma no_lowercase_delivered:
  "list_all (\<lambda>d. deliveryStatus d = ''Delivered'' \<or> deliveryStatus d = ''Not Delivered'') ds \<Longrightarrow>
   filter (\<lambda>d. deliveryStatus d = ''delivered'') ds = []"
  by (induction ds) auto

lemma trendBucket_enum:
  "list_all (\<lambda>d. deliveryStatus d = ''Delivered'' \<or> deliveryStatus d = ''Not Delivered'') ds \<Longrightarrow>
   successfulDeliveries (trendBucket k ds) = 0 \<and> trendSuccessRate (trendBucket k ds) = 0"
  by (simp add: trendBucket_def Let_def no_lowercase_delivered)

text \<open>
  Claim C3. The claim is that each trend bucket reports the number of its records
  with status Delivered and the success rate computed from it. The \<open>$group\<close> stage of
  \<open>getDeliveryTrends\<close> counts the records whose status is the string "delivered", in
  lower case, and the stored statuses are "Delivered" and "Not Delivered": whatever the
  period and the range, every bucket reports 0 successful deliveries and a success
  rate of 0. In the farm with one Delivered record (5 litres, revenue 50) the daily
  bucket of that day (the day number stands for the key of \<open>$dateToString\<close>) has 1
  delivery, 0 successful deliveries and rate 0, where \<open>getDeliverySuccessRate\<close> counts 1
  delivered record over the same range.
\<close>

theorem trends_never_count_delivered:
  assumes "enumStatuses st"
  shows "list_all (\<lambda>b. successfulDeliveries b = 0 \<and> trendSuccessRate b = 0)
           (getDeliveryTrends groupBy start end st)"
proof -
  let ?E = "\<lambda>d. deliveryStatus d = ''Delivered'' \<or> deliveryStatus d = ''Not Delivered''"
  let ?matched = "filter (inRange start end) (dailyDeliveries st)"
  have m: "list_all ?E (filter q ?matched)" for q
    using assms unfolding enumStatuses_def by (intro list_all_filter)
  show ?thesis
    unfolding getDeliveryTrends_def Let_def list_all_iff
  proof (intro ballI)
    fix b
    assume "b \<in> set (map (\<lambda>k. trendBucket k (filter (\<lambda>d. groupBy (date d) = k) ?matched))
                      (sort (remdups (map (\<lambda>d. groupBy (date d)) ?matched))))"
    then obtain k where "b = trendBucket k (filter (\<lambda>d. groupBy (date d) = k) ?matched)"
      by auto
    then show "successfulDeliveries b = 0 \<and> trendSuccessRate b = 0"
      using trendBucket_enum [OF m] by simp
  qed
qed

theorem trends_never_count_delivered_witness:
  "enumStatuses farm2 \<and>
   sr_delivered (getDeliverySuccessRate day0 (day0 + 86399999) farm2) = 1 \<and>
   getDeliveryTrends (\<lambda>d. d div 86400000) day0 (day0 + 86399999) farm2 =
     [\<lparr>period = 19676, totalDeliveries = 1, successfulDeliveries = 0, trendSuccessRate = 0,
       totalQuantity = 5, totalRevenue = 50\<rparr>]"
proof -
  have h: "enumStatuses farm2" by (simp add: enumStatuses_def farm_defs2)
  show ?thesis
    using h trends_never_count_delivered [OF h, of "\<lambda>d. d div 86400000" day0 "day0 + 86399999"]
    by (simp add: getDeliveryTrends_def trendBucket_def getDeliverySuccessRate_def
        js_divide_def inRange_def farm_defs2)
qed

section \<open>Aggregation engine: reasons of non-delivery\<close>

lemma no_not_delivered_underscore:
  "list_all (\<lambda>d. deliveryStatus d = ''Delivered'' \<or> deliveryStatus d = ''Not Delivered'') ds \<Longrightarrow>
   filter (\<lambda>d. p d \<and> deliveryStatus d = ''not_delivered'' \<and> q d) ds = []"
  by (induction ds) auto

text \<open>
  Claim C4. The claim is that \<open>getNonDeliveryReasons\<close> returns the records with status
  Not Delivered and a non-empty note, grouped by note. Its \<open>$match\<close> asks for the status
  "not_delivered", which no stored record has: over records with the statuses
  "Delivered" and "Not Delivered" the answer is the empty list, whatever the range. In
  the farm whose one record is Not Delivered with the note "gate locked", in range, the
  answer is empty where the claim expects the reason "gate locked" with count 1.
\<close>

theorem nonDeliveryReasons_always_empty:
  assumes "enumStatuses st"
  shows "getNonDeliveryReasons start end st = []"
  using assms unfolding enumStatuses_def
  by (simp add: getNonDeliveryReasons_def no_not_delivered_underscore)

theorem nonDeliveryReasons_always_empty_witness:
  "enumStatuses farm3 \<and>
   filter (\<lambda>d. inRange day0 (day0 + 86399999) d \<and> deliveryStatus d = ''Not Delivered'' \<and>
               d_notes d = Some ''gate locked'') (dailyDeliveries farm3) = [notDeliveredX] \<and>
   getNonDeliveryReasons day0 (day0 + 86399999) farm3 = []"
proof -
  have h: "enumStatuses farm3" by (simp add: enumStatuses_def farm_defs2)
  show ?thesis
    using h nonDeliveryReasons_always_empty [OF h, of day0 "day0 + 86399999"]
    by (simp add: inRange_def farm_defs2)
qed

section \<open>Delivery recorder: the upsert\<close>

lemma statusSetting_id [simp]: "statusSetting statuses name = name"
  by (auto simp: statusSetting_def split: option.splits dest: find_Some_pred)

lemma findOneAndUpdate_cases:
  assumes "findOneAndUpdate q upd ins ds = Some (ds', r)"
  shows "(list_all (\<lambda>d. \<not> q d) ds \<and> \<not> duplicateKey ins ds \<and> ds' = ds @ [ins] \<and> r = ins) \<or>
         (\<exists>pre d rest. ds = pre @ d # rest \<and> list_all (\<lambda>d. \<not> q d) pre \<and> q d \<and> r = upd d \<and>
            \<not> duplicateKey r (pre @ rest) \<and> ds' = pre @ r # rest)"
proof (cases "dropWhile (\<lambda>d. \<not> q d) ds")
  case Nil
  then have "list_all (\<lambda>d. \<not> q d) ds"
    by (simp add: list_all_iff)
  with assms Nil show ?thesis
    by (auto simp: findOneAndUpdate_def split: if_splits)
next
  case (Cons d rest)
  let ?pre = "takeWhile (\<lambda>d. \<not> q d) ds"
  have ds: "ds = ?pre @ d # rest"
    using takeWhile_dropWhile_id [of "\<lambda>d. \<not> q d" ds] Cons by simp
  have pre: "list_all (\<lambda>d. \<not> q d) ?pre"
    by (auto simp: list_all_iff dest: set_takeWhileD)
  have qd: "q d"
    using hd_dropWhile [of "\<lambda>d. \<not> q d" ds] Cons by simp
  from assms Cons have "\<not> duplicateKey (upd d) (?pre @ rest) \<and> ds' = ?pre @ upd d # rest \<and> r = upd d"
    by (auto simp: findOneAndUpdate_def Let_def split: if_splits)
  with ds pre qd show ?thesis by blast
qed

lemma findOneAndUpdate_insert:
  "list_all (\<lambda>d. \<not> q d) ds \<Longrightarrow>
   findOneAndUpdate q upd ins ds = (if duplicateKey ins ds then None else Some (ds @ [ins], ins))"
proof -
  assume "list_all (\<lambda>d. \<not> q d) ds"
  then have "dropWhile (\<lambda>d. \<not> q d) ds = []" by (simp add: list_all_iff)
  then show ?thesis unfolding findOneAndUpdate_def by (simp only: list.case)
qed

lemma findOneAndUpdate_update:
  "list_all (\<lambda>d. \<not> q d) pre \<Longrightarrow> q d \<Longrightarrow>
   findOneAndUpdate q upd ins (pre @ d # rest) =
     (if duplicateKey (upd d) (pre @ rest) then None else Some (pre @ upd d # rest, upd d))"
proof -
  assume a: "list_all (\<lambda>d. \<not> q d) pre" and b: "q d"
  have "dropWhile (\<lambda>d. \<not> q d) (pre @ d # rest) = d # rest"
    using a b by (simp add: list_all_iff dropWhile_append)
  moreover have "takeWhile (\<lambda>d. \<not> q d) (pre @ d # rest) = pre"
    using a b by (simp add: list_all_iff takeWhile_append)
  ultimately show ?thesis by (simp add: findOneAndUpdate_def Let_def)
qed

lemma findOneAndUpdate_written:
  assumes "findOneAndUpdate q upd ins ds = Some (ds', r)"
  shows "filter (\<lambda>x. indexKey x = indexKey r) ds' = [r]"
proof -
  have none: "\<not> duplicateKey r xs \<Longrightarrow> filter (\<lambda>x. indexKey x = indexKey r) xs = []" for xs
    by (induction xs) (auto simp: duplicateKey_def)
  from findOneAndUpdate_cases [OF assms] show ?thesis
  proof (elim disjE exE conjE)
    assume "\<not> duplicateKey ins ds" "ds' = ds @ [ins]" "r = ins"
    then show ?thesis using none [of ds] by simp
  next
    fix pre d rest
    assume "\<not> duplicateKey r (pre @ rest)" "ds' = pre @ r # rest"
    then show ?thesis using none [of "pre @ rest"] by simp
  qed
qed

lemma findOneAndUpdate_result:
  assumes "findOneAndUpdate q upd ins ds = Some (ds', r)"
  shows "r = ins \<or> (\<exists>d. r = upd d)"
  using findOneAndUpdate_cases [OF assms] by blast

lemma findOneAndUpdate_collision:
  assumes "x \<in> set ds" and "\<not> q x" and "indexKey x = indexKey ins"
    and "\<And>d. indexKey (upd d) = indexKey ins"
  shows "findOneAndUpdate q upd ins ds = None"
proof (cases "findOneAndUpdate q upd ins ds")
  case None
  then show ?thesis .
next
  case (Some p)
  obtain ds' r where p: "p = (ds', r)" by (cases p)
  from findOneAndUpdate_cases [OF Some [unfolded p]] show ?thesis
  proof (elim disjE exE conjE)
    assume "\<not> duplicateKey ins ds"
    with assms(1,3) show ?thesis by (auto simp: duplicateKey_def list_ex_iff)
  next
    fix pre d rest
    assume ds: "ds = pre @ d # rest" and "q d" and r: "r = upd d"
      and nd: "\<not> duplicateKey r (pre @ rest)"
    from \<open>q d\<close> assms(2) have "x \<noteq> d" by auto
    with assms(1) ds have "x \<in> set (pre @ rest)" by auto
    with nd r assms(3,4) show ?thesis by (auto simp: duplicateKey_def list_ex_iff)
  qed
qed

lemma dailyDeliveries_saveClient [simp]: "dailyDeliveries (saveClient c st) = dailyDeliveries st"
  by (simp add: saveClient_def)

lemma findClientById_dailyDeliveries_update [simp]:
  "findClientById (st\<lparr>dailyDeliveries := ds\<rparr>) i = findClientById st i"
  by (simp add: findClientById_def)

lemma findStaffById_dailyDeliveries_update [simp]:
  "findStaffById (st\<lparr>dailyDeliveries := ds\<rparr>) i = findStaffById st i"
  by (simp add: findStaffById_def)

lemma markClientDailyDelivered_success:
  assumes "markClientDailyDelivered e today st sid cid sh = Inr (st', r)"
    and "findClientById st (toObjectId e cid) = Some c"
  shows "\<exists>ds' s. sh \<noteq> [] \<and> isValid e sid \<and> isValid e cid \<and> findStaffById st (toObjectId e sid) = Some s \<and>
     toObjectId e cid \<in> set (assignedClients s) \<and>
     findOneAndUpdate (sameClientStaffDay (toObjectId e cid) (toObjectId e sid) today)
       (\<lambda>d. d\<lparr>clientId := toObjectId e cid, staffId := toObjectId e sid, date := today, shift := sh,
               deliveryStatus := ''Delivered'', quantity := c_quantity c,
               price := c_quantity c * pricePerLitre c\<rparr>)
       \<lparr>clientId = toObjectId e cid, staffId = toObjectId e sid, date = today, shift = sh,
        deliveryStatus = ''Delivered'', quantity = c_quantity c,
        price = c_quantity c * pricePerLitre c, d_notes = None\<rparr>
       (dailyDeliveries st) = Some (ds', r) \<and>
     st' = saveClient (c\<lparr>c_deliveryStatus := ''Delivered'',
                         deliveryHistory := deliveryHistory c @
                           [\<lparr>h_date = today, h_status = ''Delivered'',
                             h_quantity = c_quantity c, h_reason = None\<rparr>]\<rparr>)
             (st\<lparr>dailyDeliveries := ds'\<rparr>)"
proof -
  have cid_c: "c_id c = toObjectId e cid" using assms(2) by (rule findClientById_id)
  show ?thesis
    using assms cid_c
    by (auto simp: markClientDailyDelivered_def Let_def split: if_splits option.splits)
qed

section \<open>Delivery recorder: recording a delivery\<close>

text \<open>
  Claim C6. Let client C have daily quantity q and price per litre p. When
  \<open>markClientDailyDelivered\<close> succeeds for staff member S and C (which needs C in the
  array of S), the record it answers with is the one record of the key (C, today,
  shift) in the database: recorded by S, status Delivered, quantity q, price q * p; and
  the client document has status Delivered and its history extended by exactly one
  entry, of quantity q. For q = 5 and p = 10 the record has quantity 5 and price 50.
\<close>

theorem markClientDailyDelivered_record:
  assumes "markClientDailyDelivered e today st sid cid sh = Inr (st', r)"
    and "findClientById st (toObjectId e cid) = Some c"
  shows "clientId r = toObjectId e cid \<and> staffId r = toObjectId e sid \<and>
     date r = today \<and> shift r = sh \<and>
     deliveryStatus r = ''Delivered'' \<and> quantity r = c_quantity c \<and>
     price r = c_quantity c * pricePerLitre c \<and>
     recordsOf (toObjectId e cid) today sh st' = [r] \<and>
     findClientById st' (toObjectId e cid) =
       Some (c\<lparr>c_deliveryStatus := ''Delivered'',
               deliveryHistory := deliveryHistory c @
                 [\<lparr>h_date = today, h_status = ''Delivered'',
                   h_quantity = c_quantity c, h_reason = None\<rparr>]\<rparr>)"
proof -
  let ?c' = "c\<lparr>c_deliveryStatus := ''Delivered'',
               deliveryHistory := deliveryHistory c @
                 [\<lparr>h_date = today, h_status = ''Delivered'',
                   h_quantity = c_quantity c, h_reason = None\<rparr>]\<rparr>"
  from markClientDailyDelivered_success [OF assms] obtain ds' where
    fou: "findOneAndUpdate (sameClientStaffDay (toObjectId e cid) (toObjectId e sid) today)
       (\<lambda>d. d\<lparr>clientId := toObjectId e cid, staffId := toObjectId e sid, date := today, shift := sh,
               deliveryStatus := ''Delivered'', quantity := c_quantity c,
               price := c_quantity c * pricePerLitre c\<rparr>)
       \<lparr>clientId = toObjectId e cid, staffId = toObjectId e sid, date = today, shift = sh,
        deliveryStatus = ''Delivered'', quantity = c_quantity c,
        price = c_quantity c * pricePerLitre c, d_notes = None\<rparr>
       (dailyDeliveries st) = Some (ds', r)"
    and st': "st' = saveClient ?c' (st\<lparr>dailyDeliveries := ds'\<rparr>)"
    by blast
  have cid_c: "c_id c = toObjectId e cid" using assms(2) by (rule findClientById_id)
  have fields: "clientId r = toObjectId e cid \<and> staffId r = toObjectId e sid \<and> date r = today \<and> shift r = sh \<and>
     deliveryStatus r = ''Delivered'' \<and> quantity r = c_quantity c \<and>
     price r = c_quantity c * pricePerLitre c"
    using findOneAndUpdate_result [OF fou] by auto
  then have key: "indexKey r = (toObjectId e cid, today, sh)" by (simp add: indexKey_def)
  have recs: "recordsOf (toObjectId e cid) today sh st' = [r]"
    using findOneAndUpdate_written [OF fou] key by (simp add: recordsOf_def st')
  have cl: "findClientById st' (toObjectId e cid) = Some ?c'"
    unfolding st' using assms(2) cid_c by (simp add: findClientById_saveClient)
  show ?thesis using fields recs cl by simp
qed

theorem markClientDailyDelivered_record_witness:
  "markClientDailyDelivered env0 day0 farm1 staffA clientX ''PM'' = Inr (farm2, deliveredX) \<and>
   findClientById farm1 clientX = Some (clientX0\<lparr>assignedStaff := Some staffA\<rparr>) \<and>
   c_quantity (clientX0\<lparr>assignedStaff := Some staffA\<rparr>) = 5 \<and>
   pricePerLitre (clientX0\<lparr>assignedStaff := Some staffA\<rparr>) = 10 \<and>
   deliveryStatus deliveredX = ''Delivered'' \<and> quantity deliveredX = 5 \<and> price deliveredX = 50 \<and>
   recordsOf clientX day0 ''PM'' farm2 = [deliveredX] \<and>
   map (\<lambda>c. map h_quantity (deliveryHistory c)) (clients farm1) = [[]] \<and>
   map (\<lambda>c. map h_quantity (deliveryHistory c)) (clients farm2) = [[5]]"
proof -
  have h: "findClientById farm1 (toObjectId env0 clientX) =
      Some (clientX0\<lparr>assignedStaff := Some staffA\<rparr>)"
    by (simp add: findClientById_def farm_defs2)
  show ?thesis
    using delivered_farm1 h markClientDailyDelivered_record [OF delivered_farm1 h]
    by (simp add: env0_casts farm_defs2)
qed

lemmas farm_defs4 = farm_defs2 farm4_def

lemma farm4_reached:
  "case removeAssignment env0 farm2 staffA clientX of
     Inl err \<Rightarrow> False
   | Inr (st, s) \<Rightarrow> assignClient env0 st staffB clientX =
       Inr (farm4, \<lparr>s_id = staffB, assignedClients = [clientX]\<rparr>)"
  by (simp add: removeAssignment_def assignClient_def findStaffById_def findClientById_def
      saveStaff_def saveClient_def Let_def farm_defs4)

lemma markClientDailyUndelivered_success:
  assumes "markClientDailyUndelivered e today st sid cid sh rsn = Inr (st', r)"
    and "findClientById st (toObjectId e cid) = Some c"
  shows "\<exists>ds' s. sh \<noteq> [] \<and> rsn \<noteq> [] \<and> isValid e sid \<and> isValid e cid \<and>
     findStaffById st (toObjectId e sid) = Some s \<and> toObjectId e cid \<in> set (assignedClients s) \<and>
     findOneAndUpdate (sameClientStaffDay (toObjectId e cid) (toObjectId e sid) today)
       (\<lambda>d. d\<lparr>clientId := toObjectId e cid, staffId := toObjectId e sid, date := today, shift := sh,
               deliveryStatus := ''Not Delivered'', quantity := 0, price := 0,
               d_notes := Some rsn\<rparr>)
       \<lparr>clientId = toObjectId e cid, staffId = toObjectId e sid, date = today, shift = sh,
        deliveryStatus = ''Not Delivered'', quantity = 0, price = 0,
        d_notes = Some rsn\<rparr>
       (dailyDeliveries st) = Some (ds', r) \<and>
     st' = saveClient (c\<lparr>c_deliveryStatus := ''Not Delivered'',
                         deliveryNotes := Some rsn,
                         deliveryHistory := deliveryHistory c @
                           [\<lparr>h_date = today, h_status = ''Not Delivered'',
                             h_quantity = 0, h_reason = Some rsn\<rparr>]\<rparr>)
             (st\<lparr>dailyDeliveries := ds'\<rparr>)"
proof -
  have cid_c: "c_id c = toObjectId e cid" using assms(2) by (rule findClientById_id)
  show ?thesis
    using assms cid_c
    by (auto simp: markClientDailyUndelivered_def Let_def split: if_splits option.splits)
qed

section \<open>Delivery recorder: recording a non-delivery\<close>

text \<open>
  Claim C7. With an empty reason \<open>markClientDailyUndelivered\<close> answers 400 (the reason is
  required; when the shift is missing too, that is the message). When it succeeds and
  the database held no record of the key (C, today, shift), the record it answers with
  is the one record of that key afterwards: recorded by S, status Not Delivered,
  quantity 0, price 0, note equal to the reason; and the client document has status
  Not Delivered, the reason as its delivery notes, and its history extended by one
  entry with quantity 0 and that reason.
\<close>

theorem markClientDailyUndelivered_record:
  "markClientDailyUndelivered e today st sid cid sh [] =
     Inl (BadRequest (if sh = [] then ''Shift is required''
                      else ''Reason is required for non-delivery'')) \<and>
   (markClientDailyUndelivered e today st sid cid sh rsn = Inr (st', r) \<and>
    findClientById st (toObjectId e cid) = Some c \<and>
    recordsOf (toObjectId e cid) today sh st = [] \<longrightarrow>
      r = \<lparr>clientId = toObjectId e cid, staffId = toObjectId e sid, date = today, shift = sh,
           deliveryStatus = ''Not Delivered'', quantity = 0, price = 0,
           d_notes = Some rsn\<rparr> \<and>
      recordsOf (toObjectId e cid) today sh st' = [r] \<and>
      findClientById st' (toObjectId e cid) =
        Some (c\<lparr>c_deliveryStatus := ''Not Delivered'', deliveryNotes := Some rsn,
                deliveryHistory := deliveryHistory c @
                  [\<lparr>h_date = today, h_status = ''Not Delivered'',
                    h_quantity = 0, h_reason = Some rsn\<rparr>]\<rparr>))"
proof (intro conjI impI)
  show "markClientDailyUndelivered e today st sid cid sh [] =
     Inl (BadRequest (if sh = [] then ''Shift is required''
                      else ''Reason is required for non-delivery''))"
    by (simp add: markClientDailyUndelivered_def)
next
  let ?new = "\<lparr>clientId = toObjectId e cid, staffId = toObjectId e sid, date = today, shift = sh,
           deliveryStatus = ''Not Delivered'', quantity = 0, price = 0,
           d_notes = Some rsn\<rparr>"
  let ?c' = "c\<lparr>c_deliveryStatus := ''Not Delivered'', deliveryNotes := Some rsn,
                deliveryHistory := deliveryHistory c @
                  [\<lparr>h_date = today, h_status = ''Not Delivered'',
                    h_quantity = 0, h_reason = Some rsn\<rparr>]\<rparr>"
  assume a: "markClientDailyUndelivered e today st sid cid sh rsn = Inr (st', r) \<and>
    findClientById st (toObjectId e cid) = Some c \<and> recordsOf (toObjectId e cid) today sh st = []"
  then have ok: "markClientDailyUndelivered e today st sid cid sh rsn = Inr (st', r)"
    and c: "findClientById st (toObjectId e cid) = Some c" by simp_all
  from markClientDailyUndelivered_success [OF ok c] obtain ds' where
    fou: "findOneAndUpdate (sameClientStaffDay (toObjectId e cid) (toObjectId e sid) today)
       (\<lambda>d. d\<lparr>clientId := toObjectId e cid, staffId := toObjectId e sid, date := today, shift := sh,
               deliveryStatus := ''Not Delivered'', quantity := 0, price := 0,
               d_notes := Some rsn\<rparr>) ?new (dailyDeliveries st) = Some (ds', r)"
    and st': "st' = saveClient ?c' (st\<lparr>dailyDeliveries := ds'\<rparr>)"
    by blast
  have cid_c: "c_id c = toObjectId e cid" using c by (rule findClientById_id)
  show r: "r = ?new"
    using findOneAndUpdate_result [OF fou] by auto
  then have key: "indexKey r = (toObjectId e cid, today, sh)" by (simp add: indexKey_def)
  show "recordsOf (toObjectId e cid) today sh st' = [r]"
    using findOneAndUpdate_written [OF fou] key by (simp add: recordsOf_def st')
  show "findClientById st' (toObjectId e cid) = Some ?c'"
    unfolding st' using c cid_c by (simp add: findClientById_saveClient)
qed

theorem markClientDailyUndelivered_record_witness:
  "markClientDailyUndelivered env0 day0 farm1 staffA clientX ''PM'' [] =
     Inl (BadRequest ''Reason is required for non-delivery'') \<and>
   markClientDailyUndelivered env0 day0 farm1 staffA clientX ''PM'' ''gate locked'' =
     Inr (farm3, notDeliveredX) \<and>
   findClientById farm1 clientX = Some (clientX0\<lparr>assignedStaff := Some staffA\<rparr>) \<and>
   recordsOf clientX day0 ''PM'' farm1 = [] \<and>
   quantity notDeliveredX = 0 \<and> price notDeliveredX = 0 \<and>
   d_notes notDeliveredX = Some ''gate locked'' \<and>
   recordsOf clientX day0 ''PM'' farm3 = [notDeliveredX] \<and>
   map c_deliveryStatus (clients farm3) = [''Not Delivered''] \<and>
   map deliveryNotes (clients farm3) = [Some ''gate locked'']"
proof -
  have h: "findClientById farm1 (toObjectId env0 clientX) =
      Some (clientX0\<lparr>assignedStaff := Some staffA\<rparr>)"
    by (simp add: findClientById_def farm_defs2)
  have n: "recordsOf (toObjectId env0 clientX) day0 ''PM'' farm1 = []"
    by (simp add: recordsOf_def farm_defs2)
  show ?thesis
    using undelivered_farm1 h n
      markClientDailyUndelivered_record [of env0 day0 farm1 staffA clientX "''PM''"
        "''gate locked''" farm3 notDeliveredX "clientX0\<lparr>assignedStaff := Some staffA\<rparr>"]
    by (simp add: farm_defs2)
qed

section \<open>Delivery recorder: a second staff member on the same key\<close>

text \<open>
  Claim C10. The upsert looks for a record of the client, the acting staff member and
  the day, not of the key (client, day, shift). Let a record of the key (C, today,
  shift) exist that another staff member recorded, and let staff member S, to whom C is
  assigned, record C as delivered or as not delivered for that shift: the existing
  record does not match the filter, the write collides with the unique index on
  (clientId, date, shift), and both handlers answer 500 and change nothing.
\<close>

theorem second_staff_collides:
  assumes "sh \<noteq> []" and "rsn \<noteq> []" and "isValid e sid" and "isValid e cid"
    and "findStaffById st (toObjectId e sid) = Some s"
    and "findClientById st (toObjectId e cid) = Some c"
    and "toObjectId e cid \<in> set (assignedClients s)" and "deliveryStatuses e = Some statuses"
    and "x \<in> set (dailyDeliveries st)" and "indexKey x = (toObjectId e cid, today, sh)"
    and "staffId x \<noteq> toObjectId e sid"
  shows "\<not> sameClientStaffDay (toObjectId e cid) (toObjectId e sid) today x \<and>
     markClientDailyDelivered e today st sid cid sh =
       Inl (ServerError ''Error updating delivery status'') \<and>
     markClientDailyUndelivered e today st sid cid sh rsn =
       Inl (ServerError ''Error updating delivery status'')"
proof -
  have nq: "\<not> sameClientStaffDay (toObjectId e cid) (toObjectId e sid) today x"
    using assms(11) by (simp add: sameClientStaffDay_def)
  have cid_c: "c_id c = toObjectId e cid" using assms(6) by (rule findClientById_id)
  have d: "findOneAndUpdate (sameClientStaffDay (toObjectId e cid) (toObjectId e sid) today)
       (\<lambda>d. d\<lparr>clientId := toObjectId e cid, staffId := toObjectId e sid, date := today, shift := sh,
               deliveryStatus := ''Delivered'', quantity := c_quantity c,
               price := c_quantity c * pricePerLitre c\<rparr>)
       \<lparr>clientId = toObjectId e cid, staffId = toObjectId e sid, date = today, shift = sh,
        deliveryStatus = ''Delivered'', quantity = c_quantity c,
        price = c_quantity c * pricePerLitre c, d_notes = None\<rparr>
       (dailyDeliveries st) = None"
    using assms(9) nq assms(10)
    by (intro findOneAndUpdate_collision [of x]) (simp_all add: indexKey_def)
  have u: "findOneAndUpdate (sameClientStaffDay (toObjectId e cid) (toObjectId e sid) today)
       (\<lambda>d. d\<lparr>clientId := toObjectId e cid, staffId := toObjectId e sid, date := today, shift := sh,
               deliveryStatus := ''Not Delivered'', quantity := 0, price := 0,
               d_notes := Some rsn\<rparr>)
       \<lparr>clientId = toObjectId e cid, staffId = toObjectId e sid, date = today, shift = sh,
        deliveryStatus = ''Not Delivered'', quantity = 0, price = 0,
        d_notes = Some rsn\<rparr>
       (dailyDeliveries st) = None"
    using assms(9) nq assms(10)
    by (intro findOneAndUpdate_collision [of x]) (simp_all add: indexKey_def)
  have "markClientDailyDelivered e today st sid cid sh =
       Inl (ServerError ''Error updating delivery status'')"
    using assms(1-8) cid_c d by (simp add: markClientDailyDelivered_def Let_def)
  moreover have "markClientDailyUndelivered e today st sid cid sh rsn =
       Inl (ServerError ''Error updating delivery status'')"
    using assms(1-8) cid_c u by (simp add: markClientDailyUndelivered_def Let_def)
  ultimately show ?thesis using nq by simp
qed

theorem second_staff_collides_witness:
  "findStaffById farm4 staffB = Some \<lparr>s_id = staffB, assignedClients = [clientX]\<rparr> \<and>
   dailyDeliveries farm4 = [deliveredX] \<and>
   indexKey deliveredX = (clientX, day0, ''PM'') \<and> staffId deliveredX = staffA \<and>
   markClientDailyDelivered env0 day0 farm4 staffB clientX ''PM'' =
     Inl (ServerError ''Error updating delivery status'') \<and>
   markClientDailyUndelivered env0 day0 farm4 staffB clientX ''PM'' ''gate locked'' =
     Inl (ServerError ''Error updating delivery status'')"
proof -
  have h1: "''PM'' \<noteq> []" and h2: "''gate locked'' \<noteq> []" by simp_all
  have h3: "isValid env0 staffB" and h4: "isValid env0 clientX" by (simp_all add: farm_defs)
  have h5: "findStaffById farm4 (toObjectId env0 staffB) =
      Some \<lparr>s_id = staffB, assignedClients = [clientX]\<rparr>"
    by (simp add: findStaffById_def farm_defs4)
  have h6: "findClientById farm4 (toObjectId env0 clientX) =
      Some (clientX0\<lparr>assignedStaff := Some staffB, c_deliveryStatus := ''Delivered'',
              deliveryHistory := [\<lparr>h_date = day0, h_status = ''Delivered'',
                                    h_quantity = 5, h_reason = None\<rparr>]\<rparr>)"
    by (simp add: findClientById_def farm_defs4)
  have h7: "toObjectId env0 clientX \<in>
      set (assignedClients \<lparr>s_id = staffB, assignedClients = [clientX]\<rparr>)"
    by (simp add: env0_casts)
  have h8: "deliveryStatuses env0 = Some [''Delivered'', ''Not Delivered'']"
    by (simp add: env0_def)
  have h9: "deliveredX \<in> set (dailyDeliveries farm4)" by (simp add: farm_defs4)
  have h10: "indexKey deliveredX = (toObjectId env0 clientX, day0, ''PM'')"
    by (simp add: indexKey_def deliveredX_def env0_casts)
  have h11: "staffId deliveredX \<noteq> toObjectId env0 staffB" by (simp add: farm_defs2)
  show ?thesis
    using second_staff_collides [OF h1 h2 h3 h4 h5 h6 h7 h8 h9 h10 h11] h5 h10
    by (simp add: env0_casts farm_defs4)
qed

section \<open>Shift session tracker: selecting twice on one day\<close>

lemma filter_updateOne:
  "(\<And>x. p x \<Longrightarrow> p (f x)) \<Longrightarrow>
   filter p (updateOne p f xs) = (case filter p xs of [] \<Rightarrow> [] | y # ys \<Rightarrow> f y # ys)"
  by (induction xs) auto

lemma filter_updateOne_other:
  "(\<And>x. p x \<Longrightarrow> \<not> q x \<and> \<not> q (f x)) \<Longrightarrow> filter q (updateOne p f xs) = filter q xs"
  by (induction xs) auto

lemma length_updateOne [simp]: "length (updateOne p f xs) = length xs"
  by (induction xs) auto

lemma session_overwrite:
  "x\<lparr>ss_staffId := sid, ss_shift := sh, ss_date := today\<rparr> =
     \<lparr>ss_staffId = sid, ss_date = today, ss_shift = sh\<rparr>"
  by (cases x) simp

lemma upsertSession_key:
  assumes "length (filter (\<lambda>x. ss_staffId x = sid \<and> ss_date x = today) ss) \<le> 1"
  shows "filter (\<lambda>x. ss_staffId x = sid \<and> ss_date x = today) (upsertSession sid today sh ss) =
           [\<lparr>ss_staffId = sid, ss_date = today, ss_shift = sh\<rparr>]"
proof (cases "filter (\<lambda>x. ss_staffId x = sid \<and> ss_date x = today) ss")
  case Nil
  then have "\<not> list_ex (\<lambda>x. ss_staffId x = sid \<and> ss_date x = today) ss"
    by (simp add: list_ex_iff filter_empty_conv)
  with Nil show ?thesis by (simp add: upsertSession_def)
next
  case (Cons y ys)
  with assms have ys: "ys = []" by simp
  have "y \<in> set (filter (\<lambda>x. ss_staffId x = sid \<and> ss_date x = today) ss)"
    using Cons by simp
  then have ex: "list_ex (\<lambda>x. ss_staffId x = sid \<and> ss_date x = today) ss"
    by (auto simp: list_ex_iff)
  show ?thesis
    using ex Cons ys by (simp add: upsertSession_def filter_updateOne session_overwrite)
qed

lemma upsertSession_other_key:
  assumes "(sid', day') \<noteq> (sid, today)"
  shows "filter (\<lambda>x. ss_staffId x = sid' \<and> ss_date x = day') (upsertSession sid today sh ss) =
         filter (\<lambda>x. ss_staffId x = sid' \<and> ss_date x = day') ss"
  using assms by (auto simp: upsertSession_def intro!: filter_updateOne_other)

lemma length_upsertSession:
  "length (upsertSession sid today sh ss) =
     (if filter (\<lambda>x. ss_staffId x = sid \<and> ss_date x = today) ss = [] then Suc (length ss)
      else length ss)"
  by (auto simp: upsertSession_def list_ex_iff filter_empty_conv)

lemma selectShift_success:
  assumes "isValid e sid" and "shifts e = Some validShifts" and "sh \<in> set validShifts"
    and "sh \<noteq> []" and "findStaffById st (toObjectId e sid) = Some s"
  shows "selectShift e today st sid sh =
     Inr (st\<lparr>staffSessions := upsertSession (toObjectId e sid) today sh (staffSessions st)\<rparr>,
          \<lparr>ss_staffId = toObjectId e sid, ss_date = today, ss_shift = sh\<rparr>)"
  using assms by (simp add: selectShift_def)

lemma findStaffById_staffSessions_update [simp]:
  "findStaffById (st\<lparr>staffSessions := ss\<rparr>) i = findStaffById st i"
  by (simp add: findStaffById_def)

text \<open>
  Every (staff, day) key that has at most one session before a \<open>selectShift\<close> has at
  most one after it: from a collection without sessions, no key ever has two.
\<close>

lemma selectShift_keeps_one_per_key:
  assumes "selectShift e today st sid sh = Inr (st', r)"
    and "length (sessionsOf sid' day' st) \<le> 1"
  shows "length (sessionsOf sid' day' st') \<le> 1"
proof -
  from assms(1) have st': "st' = st\<lparr>staffSessions := upsertSession (toObjectId e sid) today sh (staffSessions st)\<rparr>"
    by (auto simp: selectShift_def split: if_splits option.splits)
  show ?thesis
  proof (cases "(sid', day') = (toObjectId e sid, today)")
    case True
    then show ?thesis
      using assms(2) upsertSession_key [of "toObjectId e sid" today "staffSessions st" sh]
      by (simp add: sessionsOf_def st')
  next
    case False
    then show ?thesis
      using assms(2) upsertSession_other_key [OF False, of sh "staffSessions st"]
      by (simp add: sessionsOf_def st')
  qed
qed

text \<open>
  Claim C9. Let the staff member exist, let "AM" and "PM" be valid shifts, and let the
  key (staff, today) have at most one session, as every key has when sessions are only
  written by \<open>selectShift\<close>. Then \<open>selectShift\<close> with "AM" succeeds and leaves exactly one
  session of the key, with shift "AM"; \<open>selectShift\<close> with "PM" on the same day succeeds,
  answers with the session of shift "PM", leaves exactly that one session of the key,
  and adds no document to the collection.
\<close>

theorem selectShift_AM_then_PM:
  assumes "isValid e sid" and "shifts e = Some validShifts"
    and "''AM'' \<in> set validShifts" and "''PM'' \<in> set validShifts"
    and "findStaffById st (toObjectId e sid) = Some s"
    and "length (sessionsOf (toObjectId e sid) today st) \<le> 1"
  shows "case selectShift e today st sid ''AM'' of
           Inl err \<Rightarrow> False
         | Inr (st1, r1) \<Rightarrow>
             sessionsOf (toObjectId e sid) today st1 =
               [\<lparr>ss_staffId = toObjectId e sid, ss_date = today, ss_shift = ''AM''\<rparr>] \<and>
             (case selectShift e today st1 sid ''PM'' of
                Inl err \<Rightarrow> False
              | Inr (st2, r2) \<Rightarrow>
                  r2 = \<lparr>ss_staffId = toObjectId e sid, ss_date = today, ss_shift = ''PM''\<rparr> \<and>
                  sessionsOf (toObjectId e sid) today st2 = [r2] \<and>
                  length (staffSessions st2) = length (staffSessions st1))"
proof -
  let ?st1 = "st\<lparr>staffSessions := upsertSession (toObjectId e sid) today ''AM'' (staffSessions st)\<rparr>"
  let ?st2 = "?st1\<lparr>staffSessions := upsertSession (toObjectId e sid) today ''PM'' (staffSessions ?st1)\<rparr>"
  have a: "selectShift e today st sid ''AM'' =
      Inr (?st1, \<lparr>ss_staffId = toObjectId e sid, ss_date = today, ss_shift = ''AM''\<rparr>)"
    using assms by (intro selectShift_success) simp_all
  have s1: "sessionsOf (toObjectId e sid) today ?st1 = [\<lparr>ss_staffId = toObjectId e sid, ss_date = today, ss_shift = ''AM''\<rparr>]"
    using assms(6) by (simp add: sessionsOf_def upsertSession_key)
  have b: "selectShift e today ?st1 sid ''PM'' =
      Inr (?st2, \<lparr>ss_staffId = toObjectId e sid, ss_date = today, ss_shift = ''PM''\<rparr>)"
    using assms by (intro selectShift_success) simp_all
  have s2: "sessionsOf (toObjectId e sid) today ?st2 = [\<lparr>ss_staffId = toObjectId e sid, ss_date = today, ss_shift = ''PM''\<rparr>]"
    using s1 by (simp add: sessionsOf_def upsertSession_key)
  have len: "length (staffSessions ?st2) = length (staffSessions ?st1)"
    using s1 by (simp add: sessionsOf_def length_upsertSession)
  show ?thesis using a s1 b s2 len by simp
qed

theorem selectShift_AM_then_PM_witness:
  "isValid env0 staffA \<and> shifts env0 = Some [''AM'', ''PM''] \<and>
   findStaffById farm1 staffA = Some \<lparr>s_id = staffA, assignedClients = [clientX]\<rparr> \<and>
   sessionsOf staffA day0 farm1 = [] \<and>
   (case selectShift env0 day0 farm1 staffA ''AM'' of
      Inl err \<Rightarrow> False
    | Inr (st1, r1) \<Rightarrow>
        (case selectShift env0 day0 st1 staffA ''PM'' of
           Inl err \<Rightarrow> False
         | Inr (st2, r2) \<Rightarrow>
             staffSessions st2 = [\<lparr>ss_staffId = staffA, ss_date = day0, ss_shift = ''PM''\<rparr>]))"
proof -
  have h1: "isValid env0 staffA" by (simp add: farm_defs)
  have h2: "shifts env0 = Some [''AM'', ''PM'']" by (simp add: env0_def)
  have h3: "''AM'' \<in> set [''AM'', ''PM'']" and h4: "''PM'' \<in> set [''AM'', ''PM'']" by simp_all
  have h5: "findStaffById farm1 (toObjectId env0 staffA) =
      Some \<lparr>s_id = staffA, assignedClients = [clientX]\<rparr>"
    by (simp add: findStaffById_def farm_defs)
  have h6: "length (sessionsOf (toObjectId env0 staffA) day0 farm1) \<le> 1"
    by (simp add: sessionsOf_def farm_defs)
  show ?thesis
    using h1 h2 h5 selectShift_AM_then_PM [OF h1 h2 h3 h4 h5 h6]
    by (simp add: selectShift_def upsertSession_def sessionsOf_def findStaffById_def farm_defs)
qed

section \<open>Delivery recorder: one record per key\<close>

lemma no_duplicate_distinct:
  "\<not> duplicateKey r xs \<Longrightarrow> indexKey r \<notin> set (map indexKey xs)"
  by (auto simp: duplicateKey_def list_ex_iff)

lemma findOneAndUpdate_distinct:
  assumes "findOneAndUpdate q upd ins ds = Some (ds', r)"
    and "distinct (map indexKey ds)"
  shows "distinct (map indexKey ds')"
  using findOneAndUpdate_cases [OF assms(1)]
proof (elim disjE exE conjE)
  assume "\<not> duplicateKey ins ds" "ds' = ds @ [ins]"
  then show ?thesis using assms(2) no_duplicate_distinct [of ins ds] by simp
next
  fix pre d rest
  assume ds: "ds = pre @ d # rest" and nd: "\<not> duplicateKey r (pre @ rest)"
    and ds': "ds' = pre @ r # rest"
  from assms(2) ds have "distinct (map indexKey (pre @ rest))" by auto
  then show ?thesis using no_duplicate_distinct [OF nd] ds' by auto
qed

lemma distinct_key_at_most_one:
  "distinct (map f xs) \<Longrightarrow> length (filter (\<lambda>x. f x = k) xs) \<le> 1"
proof (induction xs)
  case Nil
  then show ?case by simp
next
  case (Cons x xs)
  show ?case
  proof (cases "f x = k")
    case True
    with Cons.prems have "filter (\<lambda>x. f x = k) xs = []"
      by (auto simp: filter_empty_conv image_iff)
    with True show ?thesis by simp
  next
    case False
    with Cons show ?thesis by simp
  qed
qed

lemma uniqueKeys_at_most_one: "uniqueKeys st \<Longrightarrow> length (recordsOf cid day sh st) \<le> 1"
  unfolding uniqueKeys_def recordsOf_def by (rule distinct_key_at_most_one)

lemma findOneAndUpdate_again:
  assumes "findOneAndUpdate q upd ins ds = Some (ds', r)"
    and "q ins" and "\<And>d. q (upd d)" and "upd ins = ins" and "\<And>d. upd (upd d) = upd d"
  shows "findOneAndUpdate q upd ins ds' = Some (ds', r)"
  using findOneAndUpdate_cases [OF assms(1)]
proof (elim disjE exE conjE)
  assume a: "list_all (\<lambda>d. \<not> q d) ds" "\<not> duplicateKey ins ds" "ds' = ds @ [ins]" "r = ins"
  show ?thesis
    using findOneAndUpdate_update [OF a(1) assms(2), of upd ins "[]"] a(2,3,4) assms(4)
    by simp
next
  fix pre d rest
  assume b: "list_all (\<lambda>d. \<not> q d) pre" "r = upd d" "\<not> duplicateKey r (pre @ rest)"
    "ds' = pre @ r # rest"
  have qr: "q r" using b(2) assms(3) by simp
  have ur: "upd r = r" using b(2) assms(5) by simp
  show ?thesis
    using findOneAndUpdate_update [OF b(1) qr, of upd ins rest] b(3,4) ur by simp
qed

lemma markClientDailyDelivered_uniqueKeys:
  assumes "markClientDailyDelivered e today st sid cid sh = Inr (st', r)" and "uniqueKeys st"
  shows "uniqueKeys st'"
proof -
  from assms(1) obtain c where c: "findClientById st (toObjectId e cid) = Some c"
    by (auto simp: markClientDailyDelivered_def split: if_splits option.splits)
  from markClientDailyDelivered_success [OF assms(1) c] obtain ds' upd ins where
    "findOneAndUpdate (sameClientStaffDay (toObjectId e cid) (toObjectId e sid) today) upd ins (dailyDeliveries st) = Some (ds', r)"
    and "dailyDeliveries st' = ds'"
    by auto
  then show ?thesis
    using assms(2) findOneAndUpdate_distinct unfolding uniqueKeys_def by blast
qed

lemma markClientDailyUndelivered_uniqueKeys:
  assumes "markClientDailyUndelivered e today st sid cid sh rsn = Inr (st', r)" and "uniqueKeys st"
  shows "uniqueKeys st'"
proof -
  from assms(1) obtain c where c: "findClientById st (toObjectId e cid) = Some c"
    by (auto simp: markClientDailyUndelivered_def split: if_splits option.splits)
  from markClientDailyUndelivered_success [OF assms(1) c] obtain ds' upd ins where
    "findOneAndUpdate (sameClientStaffDay (toObjectId e cid) (toObjectId e sid) today) upd ins (dailyDeliveries st) = Some (ds', r)"
    and "dailyDeliveries st' = ds'"
    by auto
  then show ?thesis
    using assms(2) findOneAndUpdate_distinct unfolding uniqueKeys_def by blast
qed


text \<open>
  A request whose upsert leaves the collection as it is: the handler succeeds and only
  the client document changes. By induction, so do \<open>n\<close> such requests in a row.
\<close>

lemma markClientDailyDelivered_in_place:
  assumes "sh \<noteq> []" and "isValid e sid" and "isValid e cid"
    and "findStaffById st (toObjectId e sid) = Some s" and "toObjectId e cid \<in> set (assignedClients s)"
    and "findClientById st (toObjectId e cid) = Some c" and "deliveryStatuses e = Some statuses"
    and "findOneAndUpdate (sameClientStaffDay (toObjectId e cid) (toObjectId e sid) today)
       (\<lambda>d. d\<lparr>clientId := toObjectId e cid, staffId := toObjectId e sid, date := today, shift := sh,
               deliveryStatus := ''Delivered'', quantity := c_quantity c,
               price := c_quantity c * pricePerLitre c\<rparr>)
       \<lparr>clientId = toObjectId e cid, staffId = toObjectId e sid, date = today, shift = sh,
        deliveryStatus = ''Delivered'', quantity = c_quantity c,
        price = c_quantity c * pricePerLitre c, d_notes = None\<rparr>
       (dailyDeliveries st) = Some (dailyDeliveries st, r)"
  shows "markClientDailyDelivered e today st sid cid sh =
     Inr (saveClient (c\<lparr>c_deliveryStatus := ''Delivered'',
                         deliveryHistory := deliveryHistory c @
                           [\<lparr>h_date = today, h_status = ''Delivered'',
                             h_quantity = c_quantity c, h_reason = None\<rparr>]\<rparr>) st, r)"
proof -
  have cid_c: "c_id c = toObjectId e cid" using assms(6) by (rule findClientById_id)
  have "st\<lparr>dailyDeliveries := dailyDeliveries st\<rparr> = st" by simp
  then show ?thesis
    using assms cid_c by (simp add: markClientDailyDelivered_def Let_def)
qed

lemma repeatDelivered_in_place:
  assumes "sh \<noteq> []" and "isValid e sid" and "isValid e cid"
    and "findStaffById st (toObjectId e sid) = Some s" and "toObjectId e cid \<in> set (assignedClients s)"
    and "findClientById st (toObjectId e cid) = Some c" and "deliveryStatuses e = Some statuses"
    and "findOneAndUpdate (sameClientStaffDay (toObjectId e cid) (toObjectId e sid) today)
       (\<lambda>d. d\<lparr>clientId := toObjectId e cid, staffId := toObjectId e sid, date := today, shift := sh,
               deliveryStatus := ''Delivered'', quantity := c_quantity c,
               price := c_quantity c * pricePerLitre c\<rparr>)
       \<lparr>clientId = toObjectId e cid, staffId = toObjectId e sid, date = today, shift = sh,
        deliveryStatus = ''Delivered'', quantity = c_quantity c,
        price = c_quantity c * pricePerLitre c, d_notes = None\<rparr>
       (dailyDeliveries st) = Some (dailyDeliveries st, r)"
  shows "\<exists>stn. repeatDelivered n e today st sid cid sh = Inr stn \<and>
           dailyDeliveries stn = dailyDeliveries st"
  using assms
proof (induction n arbitrary: st c)
  case 0
  then show ?case by simp
next
  case (Suc n)
  let ?c' = "c\<lparr>c_deliveryStatus := ''Delivered'',
                deliveryHistory := deliveryHistory c @
                  [\<lparr>h_date = today, h_status = ''Delivered'',
                    h_quantity = c_quantity c, h_reason = None\<rparr>]\<rparr>"
  let ?st' = "saveClient ?c' st"
  have step: "markClientDailyDelivered e today st sid cid sh = Inr (?st', r)"
    using Suc.prems by (rule markClientDailyDelivered_in_place)
  have cid_c: "c_id c = toObjectId e cid" using Suc.prems(6) by (rule findClientById_id)
  have c': "findClientById ?st' (toObjectId e cid) = Some ?c'"
    using Suc.prems(6) cid_c by (simp add: findClientById_saveClient)
  have "\<exists>stn. repeatDelivered n e today ?st' sid cid sh = Inr stn \<and>
           dailyDeliveries stn = dailyDeliveries ?st'"
    using Suc.prems(1-5,7,8) c'
    by (intro Suc.IH [where c = ?c']) simp_all
  then show ?case using step by simp
qed

text \<open>
  Requests of one staff member. Let the stored records have pairwise different keys
  (client, day, shift), as the unique index demands, and let a
  \<open>markClientDailyDelivered\<close> request of staff member S for client C and a shift succeed.
  Then afterwards every key still has at most one record, the key (C, today, shift)
  has exactly one, the record answered; and \<open>n\<close> further identical requests of S on that
  day all succeed, leave the collection of records as it is and the key with that one
  record: the record is updated in place, never duplicated.
\<close>

theorem delivered_upsert_in_place:
  assumes "uniqueKeys st"
    and "markClientDailyDelivered e today st sid cid sh = Inr (st1, r)"
  shows "length (recordsOf cid' day' sh' st1) \<le> 1 \<and>
     recordsOf (toObjectId e cid) today sh st1 = [r] \<and>
     (case repeatDelivered n e today st1 sid cid sh of
        Inl err \<Rightarrow> False
      | Inr stn \<Rightarrow> dailyDeliveries stn = dailyDeliveries st1 \<and>
                   recordsOf (toObjectId e cid) today sh stn = [r])"
proof -
  from assms(2) obtain c where c: "findClientById st (toObjectId e cid) = Some c"
    by (auto simp: markClientDailyDelivered_def split: if_splits option.splits)
  from assms(2) obtain statuses where ds: "deliveryStatuses e = Some statuses"
    by (auto simp: markClientDailyDelivered_def split: if_splits option.splits)
  let ?q = "sameClientStaffDay (toObjectId e cid) (toObjectId e sid) today"
  let ?upd = "\<lambda>d. d\<lparr>clientId := toObjectId e cid, staffId := toObjectId e sid, date := today, shift := sh,
               deliveryStatus := ''Delivered'', quantity := c_quantity c,
               price := c_quantity c * pricePerLitre c\<rparr>"
  let ?ins = "\<lparr>clientId = toObjectId e cid, staffId = toObjectId e sid, date = today, shift = sh,
        deliveryStatus = ''Delivered'', quantity = c_quantity c,
        price = c_quantity c * pricePerLitre c, d_notes = None\<rparr>"
  let ?c' = "c\<lparr>c_deliveryStatus := ''Delivered'',
                deliveryHistory := deliveryHistory c @
                  [\<lparr>h_date = today, h_status = ''Delivered'',
                    h_quantity = c_quantity c, h_reason = None\<rparr>]\<rparr>"
  from markClientDailyDelivered_success [OF assms(2) c] obtain ds' s where
    pre: "sh \<noteq> []" "isValid e sid" "isValid e cid" "findStaffById st (toObjectId e sid) = Some s"
      "toObjectId e cid \<in> set (assignedClients s)"
    and fou: "findOneAndUpdate ?q ?upd ?ins (dailyDeliveries st) = Some (ds', r)"
    and st1: "st1 = saveClient ?c' (st\<lparr>dailyDeliveries := ds'\<rparr>)"
    by blast
  have cid_c: "c_id c = toObjectId e cid" using c by (rule findClientById_id)
  have u1: "uniqueKeys st1" using assms(2,1) by (rule markClientDailyDelivered_uniqueKeys)
  have one: "length (recordsOf cid' day' sh' st1) \<le> 1"
    using u1 by (rule uniqueKeys_at_most_one)
  have "clientId r = toObjectId e cid \<and> date r = today \<and> shift r = sh"
    using findOneAndUpdate_result [OF fou] by auto
  then have key: "indexKey r = (toObjectId e cid, today, sh)" by (simp add: indexKey_def)
  have rec: "recordsOf (toObjectId e cid) today sh st1 = [r]"
    using findOneAndUpdate_written [OF fou] key by (simp add: recordsOf_def st1)
  have again: "findOneAndUpdate ?q ?upd ?ins ds' = Some (ds', r)"
    using fou by (rule findOneAndUpdate_again) (simp_all add: sameClientStaffDay_def)
  have d1: "dailyDeliveries st1 = ds'" by (simp add: st1)
  have s1: "findStaffById st1 (toObjectId e sid) = Some s" using pre(4) by (simp add: st1)
  have c1: "findClientById st1 (toObjectId e cid) = Some ?c'"
    unfolding st1 using c cid_c by (simp add: findClientById_saveClient)
  have "\<exists>stn. repeatDelivered n e today st1 sid cid sh = Inr stn \<and>
           dailyDeliveries stn = dailyDeliveries st1"
    using pre(1-3) s1 pre(5) c1 ds again d1
    by (intro repeatDelivered_in_place [where c = ?c']) simp_all
  then obtain stn where n: "repeatDelivered n e today st1 sid cid sh = Inr stn"
    and dn: "dailyDeliveries stn = dailyDeliveries st1" by blast
  have "recordsOf (toObjectId e cid) today sh stn = [r]"
    using rec dn by (simp add: recordsOf_def)
  then show ?thesis using one rec n dn by simp
qed

theorem delivered_upsert_in_place_witness:
  "uniqueKeys farm1 \<and>
   markClientDailyDelivered env0 day0 farm1 staffA clientX ''PM'' = Inr (farm2, deliveredX) \<and>
   recordsOf clientX day0 ''PM'' farm2 = [deliveredX] \<and>
   (case repeatDelivered 3 env0 day0 farm2 staffA clientX ''PM'' of
      Inl err \<Rightarrow> False
    | Inr stn \<Rightarrow> dailyDeliveries stn = [deliveredX] \<and>
                 length (recordsOf clientX day0 ''PM'' stn) = 1)"
proof -
  have h: "uniqueKeys farm1" by (simp add: uniqueKeys_def farm_defs)
  have d: "dailyDeliveries farm2 = [deliveredX]" by (simp add: farm2_def)
  show ?thesis
    using h d delivered_farm1
      delivered_upsert_in_place [OF h delivered_farm1, of clientX day0 "''PM''" 3]
    by (simp add: env0_casts split: sum.splits)
qed

text \<open>
  Claim C2. The claim is that every key (client, day, shift) has at most one record
  and that repeated \<open>markClientDailyDelivered\<close> requests for the same key update the
  record of the key in place. The unique index keeps the first half. The upsert of
  the handler, however, looks for a record of the client, the acting staff member and
  the day, not for the record of the key. In the farm where staff member A has
  recorded client X as delivered on the PM shift and X has then been unassigned from A
  and assigned to staff member B, the request of B for the same client, day and shift
  finds no record of its own, tries to insert a second record of the key, is refused
  by the index and answers 500; so does every repetition. The record of the key is
  still the one of A: it is not updated, and B's delivery is not recorded.
\<close>

theorem other_staff_request_not_in_place:
  "uniqueKeys farm4 \<and>
   recordsOf clientX day0 ''PM'' farm4 = [deliveredX] \<and> staffId deliveredX = staffA \<and>
   findStaffById farm4 (toObjectId env0 staffB) =
     Some \<lparr>s_id = staffB, assignedClients = [clientX]\<rparr> \<and>
   markClientDailyDelivered env0 day0 farm4 staffB clientX ''PM'' =
     Inl (ServerError ''Error updating delivery status'') \<and>
   repeatDelivered (Suc n) env0 day0 farm4 staffB clientX ''PM'' =
     Inl (ServerError ''Error updating delivery status'')"
proof -
  have call: "markClientDailyDelivered env0 day0 farm4 staffB clientX ''PM'' =
     Inl (ServerError ''Error updating delivery status'')"
    by (simp add: markClientDailyDelivered_def findStaffById_def findClientById_def
        findOneAndUpdate_def sameClientStaffDay_def duplicateKey_def indexKey_def Let_def
        farm_defs4)
  have u: "uniqueKeys farm4" by (simp add: uniqueKeys_def farm_defs4)
  have r: "recordsOf clientX day0 ''PM'' farm4 = [deliveredX]"
    by (simp add: recordsOf_def indexKey_def farm_defs4)
  have s: "findStaffById farm4 (toObjectId env0 staffB) =
     Some \<lparr>s_id = staffB, assignedClients = [clientX]\<rparr>"
    by (simp add: findStaffById_def farm_defs4)
  show ?thesis using call u r s by (simp add: deliveredX_def)
qed

theorem other_staff_request_not_in_place_witness:
  "recordsOf clientX day0 ''PM'' farm4 = [deliveredX] \<and>
   repeatDelivered (Suc (Suc (Suc 0))) env0 day0 farm4 staffB clientX ''PM'' =
     Inl (ServerError ''Error updating delivery status'')"
  using other_staff_request_not_in_place [of "Suc (Suc 0)"] by blast

section \<open>Assignment ledger: assigning and unassigning keep the invariant\<close>

lemma updateOne_distinct:
  "distinct (map f xs) \<Longrightarrow>
   updateOne (\<lambda>x. f x = i) (\<lambda>_. y) xs = map (\<lambda>x. if f x = i then y else x) xs"
proof (induction xs)
  case Nil
  then show ?case by simp
next
  case (Cons x xs)
  show ?case
  proof (cases "f x = i")
    case True
    with Cons.prems have "\<forall>z\<in>set xs. f z \<noteq> i" by (auto simp: image_iff)
    then have "map (\<lambda>x. if f x = i then y else x) xs = xs" by (simp add: map_idI)
    with True show ?thesis by simp
  next
    case False
    with Cons show ?thesis by simp
  qed
qed

lemma find_Some_set: "find p xs = Some x \<Longrightarrow> x \<in> set xs"
  by (induction xs) (auto split: if_splits)

lemma distinct_same_id:
  "distinct (map f xs) \<Longrightarrow> x \<in> set xs \<Longrightarrow> y \<in> set xs \<Longrightarrow> f x = f y \<Longrightarrow> x = y"
  by (meson distinct_map inj_onD)

lemma ledgerInv_iff:
  "ledgerInv st \<longleftrightarrow>
    distinct (map s_id (staffs st)) \<and> distinct (map c_id (clients st)) \<and>
    (\<forall>c\<in>set (clients st). \<forall>s\<in>set (staffs st).
       (c_id c \<in> set (assignedClients s)) = (assignedStaff c = Some (s_id s))) \<and>
    (\<forall>c\<in>set (clients st). \<forall>i. assignedStaff c = Some i \<longrightarrow> (\<exists>s\<in>set (staffs st). s_id s = i))"
  by (auto simp: ledgerInv_def list_all_iff list_ex_iff split: option.splits)

lemma consistent_iff:
  "consistent st \<longleftrightarrow>
    (\<forall>c\<in>set (clients st). (assignedStaff c \<noteq> None) =
       (\<exists>s\<in>set (staffs st). c_id c \<in> set (assignedClients s)))"
  by (simp add: consistent_def list_all_iff list_ex_iff)

lemma ledgerInv_consistent: "ledgerInv st \<Longrightarrow> consistent st"
  unfolding ledgerInv_iff consistent_iff by (metis option.exhaust option.distinct(1))

lemma assignClient_keeps_ledgerInv:
  assumes "ledgerInv st" and "assignClient e st sid cid = Inr (st', s')"
  shows "ledgerInv st'"
proof -
  from assms(2) obtain s c where
    s: "findStaffById st (toObjectId e sid) = Some s" and c: "findClientById st (toObjectId e cid) = Some c"
    and free: "assignedStaff c = None"
    and st': "st' = saveClient (c\<lparr>assignedStaff := Some (toObjectId e sid)\<rparr>)
                      (saveStaff (s\<lparr>assignedClients := assignedClients s @ [toObjectId e cid]\<rparr>) st)"
    by (auto simp: assignClient_def Let_def split: if_splits option.splits)
  have sid_s: "s_id s = toObjectId e sid" using s by (rule findStaffById_id)
  have cid_c: "c_id c = toObjectId e cid" using c by (rule findClientById_id)
  have s_in: "s \<in> set (staffs st)" using s by (auto simp: findStaffById_def dest: find_Some_set)
  have c_in: "c \<in> set (clients st)" using c by (auto simp: findClientById_def dest: find_Some_set)
  from assms(1) have ds: "distinct (map s_id (staffs st))" and dc: "distinct (map c_id (clients st))"
    and pw: "\<And>x t. x \<in> set (clients st) \<Longrightarrow> t \<in> set (staffs st) \<Longrightarrow>
       (c_id x \<in> set (assignedClients t)) = (assignedStaff x = Some (s_id t))"
    and ri: "\<And>x i. x \<in> set (clients st) \<Longrightarrow> assignedStaff x = Some i \<Longrightarrow>
       \<exists>t\<in>set (staffs st). s_id t = i"
    unfolding ledgerInv_iff by blast+
  have only_s: "t = s" if "t \<in> set (staffs st)" "s_id t = toObjectId e sid" for t
    using distinct_same_id [OF ds that(1) s_in] that(2) sid_s by simp
  have only_c: "x = c" if "x \<in> set (clients st)" "c_id x = toObjectId e cid" for x
    using distinct_same_id [OF dc that(1) c_in] that(2) cid_c by simp
  have staffs': "staffs st' = map (\<lambda>t. if s_id t = toObjectId e sid then s\<lparr>assignedClients := assignedClients s @ [toObjectId e cid]\<rparr> else t) (staffs st)"
    using ds sid_s by (simp add: st' saveClient_def saveStaff_def updateOne_distinct)
  have clients': "clients st' = map (\<lambda>x. if c_id x = toObjectId e cid then c\<lparr>assignedStaff := Some (toObjectId e sid)\<rparr> else x) (clients st)"
    using dc cid_c by (simp add: st' saveClient_def saveStaff_def updateOne_distinct)
  have ids_s: "map s_id (staffs st') = map s_id (staffs st)"
    unfolding staffs' using sid_s by (auto simp: comp_def)
  have ids_c: "map c_id (clients st') = map c_id (clients st)"
    unfolding clients' using cid_c by (auto simp: comp_def)
  have g1: "distinct (map s_id (staffs st'))" using ds ids_s by simp
  have g2: "distinct (map c_id (clients st'))" using dc ids_c by simp
  have g3: "(c_id x \<in> set (assignedClients t)) = (assignedStaff x = Some (s_id t))"
    if "x \<in> set (clients st')" "t \<in> set (staffs st')" for x t
  proof -
    from that(1) obtain x0 where x0: "x0 \<in> set (clients st)"
      "x = (if c_id x0 = toObjectId e cid then c\<lparr>assignedStaff := Some (toObjectId e sid)\<rparr> else x0)"
      unfolding clients' by auto
    from that(2) obtain t0 where t0: "t0 \<in> set (staffs st)"
      "t = (if s_id t0 = toObjectId e sid then s\<lparr>assignedClients := assignedClients s @ [toObjectId e cid]\<rparr> else t0)"
      unfolding staffs' by auto
    show ?thesis
    proof (cases "c_id x0 = toObjectId e cid")
      case True
      then have x0c: "x0 = c" using only_c x0(1) by simp
      show ?thesis
      proof (cases "s_id t0 = toObjectId e sid")
        case True
        with x0 t0 x0c cid_c sid_s show ?thesis by simp
      next
        case False
        then have "(toObjectId e cid) \<notin> set (assignedClients t0)"
          using pw [OF c_in t0(1)] free cid_c by simp
        with False x0 t0 x0c cid_c show ?thesis by auto
      qed
    next
      case False
      show ?thesis
      proof (cases "s_id t0 = toObjectId e sid")
        case True
        then have "t0 = s" using only_s t0(1) by simp
        with True False x0 t0 pw [OF x0(1) s_in] sid_s show ?thesis by auto
      next
        case False': False
        with False x0 t0 pw [OF x0(1) t0(1)] show ?thesis by simp
      qed
    qed
  qed
  have g4: "\<exists>t\<in>set (staffs st'). s_id t = i"
    if "x \<in> set (clients st')" "assignedStaff x = Some i" for x i
  proof -
    have img: "s_id ` set (staffs st') = s_id ` set (staffs st)"
      using ids_s by (metis set_map)
    from that(1) obtain x0 where x0: "x0 \<in> set (clients st)"
      "x = (if c_id x0 = toObjectId e cid then c\<lparr>assignedStaff := Some (toObjectId e sid)\<rparr> else x0)"
      unfolding clients' by auto
    have "i \<in> s_id ` set (staffs st)"
    proof (cases "c_id x0 = toObjectId e cid")
      case True
      with x0 that(2) have "i = toObjectId e sid" by simp
      with sid_s have "i = s_id s" by simp
      with s_in show ?thesis by (rule_tac image_eqI)
    next
      case False
      with x0 that(2) ri [OF x0(1)] show ?thesis by auto
    qed
    with img have "i \<in> s_id ` set (staffs st')" by simp
    then show ?thesis by (auto simp: image_iff)
  qed
  show ?thesis unfolding ledgerInv_iff using g1 g2 g3 g4 by blast
qed

lemma removeAssignment_keeps_ledgerInv:
  assumes "ledgerInv st" and "removeAssignment e st sid cid = Inr (st', s')"
    and "toObjectId e cid = cid"
  shows "ledgerInv st'"
proof -
  from assms(2) obtain s c where
    s: "findStaffById st (toObjectId e sid) = Some s" and c: "findClientById st cid = Some c"
    and held: "cid \<in> set (assignedClients s)"
    and st': "st' = saveClient (c\<lparr>assignedStaff := None\<rparr>)
        (saveStaff (s\<lparr>assignedClients := filter (\<lambda>i. i \<noteq> cid) (assignedClients s)\<rparr>) st)"
    using assms(3) by (auto simp: removeAssignment_def Let_def split: if_splits option.splits)
  have sid_s: "s_id s = toObjectId e sid" using s by (rule findStaffById_id)
  have cid_c: "c_id c = cid" using c by (rule findClientById_id)
  have s_in: "s \<in> set (staffs st)" using s by (auto simp: findStaffById_def dest: find_Some_set)
  have c_in: "c \<in> set (clients st)" using c by (auto simp: findClientById_def dest: find_Some_set)
  from assms(1) have ds: "distinct (map s_id (staffs st))" and dc: "distinct (map c_id (clients st))"
    and pw: "\<And>x t. x \<in> set (clients st) \<Longrightarrow> t \<in> set (staffs st) \<Longrightarrow>
       (c_id x \<in> set (assignedClients t)) = (assignedStaff x = Some (s_id t))"
    and ri: "\<And>x i. x \<in> set (clients st) \<Longrightarrow> assignedStaff x = Some i \<Longrightarrow>
       \<exists>t\<in>set (staffs st). s_id t = i"
    unfolding ledgerInv_iff by blast+
  have bref: "assignedStaff c = Some (toObjectId e sid)"
    using pw [OF c_in s_in] held cid_c sid_s by simp
  have only_s: "t = s" if "t \<in> set (staffs st)" "s_id t = toObjectId e sid" for t
    using distinct_same_id [OF ds that(1) s_in] that(2) sid_s by simp
  have only_c: "x = c" if "x \<in> set (clients st)" "c_id x = cid" for x
    using distinct_same_id [OF dc that(1) c_in] that(2) cid_c by simp
  have staffs': "staffs st' = map (\<lambda>t. if s_id t = toObjectId e sid
      then s\<lparr>assignedClients := filter (\<lambda>i. i \<noteq> cid) (assignedClients s)\<rparr> else t) (staffs st)"
    using ds sid_s by (simp add: st' saveClient_def saveStaff_def updateOne_distinct)
  have clients': "clients st' =
      map (\<lambda>x. if c_id x = cid then c\<lparr>assignedStaff := None\<rparr> else x) (clients st)"
    using dc cid_c by (simp add: st' saveClient_def saveStaff_def updateOne_distinct)
  have ids_s: "map s_id (staffs st') = map s_id (staffs st)"
    unfolding staffs' using sid_s by (auto simp: comp_def)
  have ids_c: "map c_id (clients st') = map c_id (clients st)"
    unfolding clients' using cid_c by (auto simp: comp_def)
  have g1: "distinct (map s_id (staffs st'))" using ds ids_s by simp
  have g2: "distinct (map c_id (clients st'))" using dc ids_c by simp
  have g3: "(c_id x \<in> set (assignedClients t)) = (assignedStaff x = Some (s_id t))"
    if "x \<in> set (clients st')" "t \<in> set (staffs st')" for x t
  proof -
    from that(1) obtain x0 where x0: "x0 \<in> set (clients st)"
      "x = (if c_id x0 = cid then c\<lparr>assignedStaff := None\<rparr> else x0)"
      unfolding clients' by auto
    from that(2) obtain t0 where t0: "t0 \<in> set (staffs st)"
      "t = (if s_id t0 = toObjectId e sid
            then s\<lparr>assignedClients := filter (\<lambda>i. i \<noteq> cid) (assignedClients s)\<rparr> else t0)"
      unfolding staffs' by auto
    show ?thesis
    proof (cases "c_id x0 = cid")
      case True
      then have x0c: "x0 = c" using only_c x0(1) by simp
      show ?thesis
      proof (cases "s_id t0 = toObjectId e sid")
        case True
        with x0 t0 x0c cid_c show ?thesis by simp
      next
        case False
        then have "cid \<notin> set (assignedClients t0)"
          using pw [OF c_in t0(1)] bref cid_c by simp
        with False x0 t0 x0c cid_c show ?thesis by auto
      qed
    next
      case False
      show ?thesis
      proof (cases "s_id t0 = toObjectId e sid")
        case True
        then have "t0 = s" using only_s t0(1) by simp
        with True False x0 t0 pw [OF x0(1) s_in] sid_s show ?thesis by auto
      next
        case False': False
        with False x0 t0 pw [OF x0(1) t0(1)] show ?thesis by simp
      qed
    qed
  qed
  have g4: "\<exists>t\<in>set (staffs st'). s_id t = i"
    if "x \<in> set (clients st')" "assignedStaff x = Some i" for x i
  proof -
    have img: "s_id ` set (staffs st') = s_id ` set (staffs st)"
      using ids_s by (metis set_map)
    from that(1) obtain x0 where x0: "x0 \<in> set (clients st)"
      "x = (if c_id x0 = cid then c\<lparr>assignedStaff := None\<rparr> else x0)"
      unfolding clients' by auto
    from x0 that(2) have "c_id x0 \<noteq> cid" by auto
    with x0 that(2) ri [OF x0(1)] have "i \<in> s_id ` set (staffs st)" by auto
    with img have "i \<in> s_id ` set (staffs st')" by simp
    then show ?thesis by (auto simp: image_iff)
  qed
  show ?thesis unfolding ledgerInv_iff using g1 g2 g3 g4 by blast
qed

text \<open>
  From a database that satisfies the ledger's invariant, \<open>assignClient\<close>, and
  \<open>removeAssignment\<close> for a client id that the request spells as it is stored, whenever
  they succeed, lead to a database that satisfies it again, and with it the invariant
  as the specification words it.
\<close>

theorem assign_unassign_keep_ledger:
  assumes "ledgerInv st" and "toObjectId e cid' = cid'"
  shows "consistent st \<and>
     (case assignClient e st sid cid of
        Inl err \<Rightarrow> True
      | Inr (st', s') \<Rightarrow> ledgerInv st' \<and> consistent st') \<and>
     (case removeAssignment e st sid' cid' of
        Inl err \<Rightarrow> True
      | Inr (st', s') \<Rightarrow> ledgerInv st' \<and> consistent st')"
proof -
  have a: "ledgerInv st' \<and> consistent st'"
    if "assignClient e st sid cid = Inr (st', s')" for st' s'
    using assignClient_keeps_ledgerInv [OF assms(1) that] ledgerInv_consistent by blast
  have r: "ledgerInv st' \<and> consistent st'"
    if "removeAssignment e st sid' cid' = Inr (st', s')" for st' s'
    using removeAssignment_keeps_ledgerInv [OF assms(1) that assms(2)] ledgerInv_consistent
    by blast
  show ?thesis
    using ledgerInv_consistent [OF assms(1)] a r by (auto split: sum.splits)
qed

theorem assign_unassign_keep_ledger_witness:
  "ledgerInv farm0 \<and> ledgerInv farm1 \<and> consistent farm1 \<and>
   assignClient env0 farm0 staffA clientX =
     Inr (farm1, \<lparr>s_id = staffA, assignedClients = [clientX]\<rparr>) \<and>
   removeAssignment env0 farm1 staffA clientX =
     Inr (farm0, \<lparr>s_id = staffA, assignedClients = []\<rparr>)"
proof -
  have h0: "ledgerInv farm0" by (simp add: ledgerInv_def farm_defs)
  have h1: "ledgerInv farm1" by (simp add: ledgerInv_def farm_defs)
  have a: "assignClient env0 farm0 staffA clientX =
     Inr (farm1, \<lparr>s_id = staffA, assignedClients = [clientX]\<rparr>)"
    by (simp add: assignClient_def findStaffById_def findClientById_def saveStaff_def
        saveClient_def Let_def farm_defs)
  have r: "removeAssignment env0 farm1 staffA clientX =
     Inr (farm0, \<lparr>s_id = staffA, assignedClients = []\<rparr>)"
    by (simp add: removeAssignment_def findStaffById_def findClientById_def saveStaff_def
        saveClient_def Let_def farm_defs)
  have c: "toObjectId env0 clientX = clientX" by (rule env0_casts)
  show ?thesis
    using h0 h1 a r assign_unassign_keep_ledger [OF h0 c, of staffA clientX staffA]
      assign_unassign_keep_ledger [OF h1 c, of staffA clientX staffA]
    by simp
qed

section \<open>Aggregation engine: keys, counts and sums of the trend buckets\<close>

lemma period_trendBucket [simp]: "period (trendBucket k ds) = k"
  by (simp add: trendBucket_def Let_def)

lemma trend_periods:
  "map period (getDeliveryTrends groupBy start end st) =
     sort (remdups (map (\<lambda>d. groupBy (date d))
       (filter (inRange start end) (dailyDeliveries st))))"
  by (simp add: getDeliveryTrends_def Let_def comp_def)

text \<open>
  What the trend buckets do report: there is one bucket for each key that occurs among
  the records of the range, the buckets are in strictly ascending order of their keys,
  and each reports the number of its records, which is positive, and the sums of
  their quantities and prices.
\<close>

theorem trend_buckets_sorted_and_summed:
  "sorted (map period (getDeliveryTrends groupBy start end st)) \<and>
   distinct (map period (getDeliveryTrends groupBy start end st)) \<and>
   set (map period (getDeliveryTrends groupBy start end st)) =
     (\<lambda>d. groupBy (date d)) ` set (filter (inRange start end) (dailyDeliveries st)) \<and>
   list_all (\<lambda>b.
       0 < totalDeliveries b \<and>
       totalDeliveries b =
         length (filter (\<lambda>d. groupBy (date d) = period b)
           (filter (inRange start end) (dailyDeliveries st))) \<and>
       totalQuantity b =
         sum_list (map quantity (filter (\<lambda>d. groupBy (date d) = period b)
           (filter (inRange start end) (dailyDeliveries st)))) \<and>
       totalRevenue b =
         sum_list (map price (filter (\<lambda>d. groupBy (date d) = period b)
           (filter (inRange start end) (dailyDeliveries st)))))
     (getDeliveryTrends groupBy start end st)"
proof -
  let ?matched = "filter (inRange start end) (dailyDeliveries st)"
  let ?keys = "sort (remdups (map (\<lambda>d. groupBy (date d)) ?matched))"
  have s: "sorted (map period (getDeliveryTrends groupBy start end st))"
    by (simp only: trend_periods sorted_sort)
  have d: "distinct (map period (getDeliveryTrends groupBy start end st))"
    by (simp only: trend_periods distinct_sort distinct_remdups)
  have e: "set (map period (getDeliveryTrends groupBy start end st)) =
     (\<lambda>d. groupBy (date d)) ` set ?matched"
    by (simp only: trend_periods set_sort set_remdups set_map)
  have nonempty: "filter (\<lambda>d. groupBy (date d) = k) ?matched \<noteq> []" if "k \<in> set ?keys" for k
  proof -
    from that obtain d where "d \<in> set ?matched" "groupBy (date d) = k" by auto
    then show ?thesis by (auto simp: filter_empty_conv simp del: filter_filter)
  qed
  have b: "list_all (\<lambda>b.
       0 < totalDeliveries b \<and>
       totalDeliveries b = length (filter (\<lambda>d. groupBy (date d) = period b) ?matched) \<and>
       totalQuantity b =
         sum_list (map quantity (filter (\<lambda>d. groupBy (date d) = period b) ?matched)) \<and>
       totalRevenue b =
         sum_list (map price (filter (\<lambda>d. groupBy (date d) = period b) ?matched)))
     (getDeliveryTrends groupBy start end st)"
    unfolding getDeliveryTrends_def Let_def list_all_iff
  proof (intro ballI)
    fix b
    assume "b \<in> set (map (\<lambda>k. trendBucket k (filter (\<lambda>d. groupBy (date d) = k) ?matched)) ?keys)"
    then obtain k where k: "k \<in> set ?keys"
      and bk: "b = trendBucket k (filter (\<lambda>d. groupBy (date d) = k) ?matched)" by auto
    from nonempty [OF k] show "0 < totalDeliveries b \<and>
       totalDeliveries b = length (filter (\<lambda>d. groupBy (date d) = period b) ?matched) \<and>
       totalQuantity b =
         sum_list (map quantity (filter (\<lambda>d. groupBy (date d) = period b) ?matched)) \<and>
       totalRevenue b =
         sum_list (map price (filter (\<lambda>d. groupBy (date d) = period b) ?matched))"
      unfolding bk by (simp add: trendBucket_def Let_def del: filter_filter)
  qed
  show ?thesis using s d e b by blast
qed

theorem trend_buckets_sorted_and_summed_witness:
  "map period (getDeliveryTrends (\<lambda>d. d div 86400000) day0 (day0 + 86399999) farm2) = [19676] \<and>
   map totalDeliveries (getDeliveryTrends (\<lambda>d. d div 86400000) day0 (day0 + 86399999) farm2) = [1] \<and>
   map totalQuantity (getDeliveryTrends (\<lambda>d. d div 86400000) day0 (day0 + 86399999) farm2) = [5] \<and>
   map totalRevenue (getDeliveryTrends (\<lambda>d. d div 86400000) day0 (day0 + 86399999) farm2) = [50]"
  using trend_buckets_sorted_and_summed [of "\<lambda>d. d div 86400000" day0 "day0 + 86399999" farm2]
  by (simp add: getDeliveryTrends_def trendBucket_def inRange_def farm_defs2)

section \<open>Delivery recorder: the statuses written\<close>

text \<open>
  Both recording handlers keep the stored statuses within the schema's enumeration.
\<close>

lemma findOneAndUpdate_list_all:
  assumes "findOneAndUpdate q upd ins ds = Some (ds', r)"
    and "list_all P ds" and "P ins" and "\<And>d. P (upd d)"
  shows "list_all P ds'"
  using findOneAndUpdate_cases [OF assms(1)] assms(2-4) by auto

lemma markClientDailyDelivered_enumStatuses:
  assumes "markClientDailyDelivered e today st sid cid sh = Inr (st', r)" and "enumStatuses st"
  shows "enumStatuses st'"
proof -
  from assms(1) obtain c where c: "findClientById st (toObjectId e cid) = Some c"
    by (auto simp: markClientDailyDelivered_def split: if_splits option.splits)
  from markClientDailyDelivered_success [OF assms(1) c] assms(2) show ?thesis
    unfolding enumStatuses_def
    by (auto elim!: findOneAndUpdate_list_all)
qed

lemma markClientDailyUndelivered_enumStatuses:
  assumes "markClientDailyUndelivered e today st sid cid sh rsn = Inr (st', r)"
    and "enumStatuses st"
  shows "enumStatuses st'"
proof -
  from assms(1) obtain c where c: "findClientById st (toObjectId e cid) = Some c"
    by (auto simp: markClientDailyUndelivered_def split: if_splits option.splits)
  from markClientDailyUndelivered_success [OF assms(1) c] assms(2) show ?thesis
    unfolding enumStatuses_def
    by (auto elim!: findOneAndUpdate_list_all)
qed

end
